theory Spec2Isabelle
  imports Complex_Main "HOL-Library.Product_Lexorder" "HOL-Library.List_Lexorder"
    "HOL-Library.Char_ord"
begin

section \<open>Common types of the automata library\<close>

text \<open>
  \<^verbatim>\<open>Symbol\<close> is \<^verbatim>\<open>std::string\<close>. \<^verbatim>\<open>Time\<close> is the library's time type; the data model
  describes clock valuations as rationals, and this is how it is taken here.
  A \<^verbatim>\<open>Clock\<close> is represented by its valuation: a fresh clock reads 0, \<^verbatim>\<open>tick\<close> adds
  a difference, \<^verbatim>\<open>reset\<close> sets it to 0.
\<close>

type_synonym Symbol = string
type_synonym Time = rat
type_synonym ClockValuation = Time
type_synonym Clock = Time

text \<open>
  Modelled from the spec: the declaration of \<^verbatim>\<open>ClockConstraint\<close> and of \<^verbatim>\<open>is_satisfied\<close>
  (automata.h) is not among the sources. A clock constraint is one of the
  comparisons \<open><\<close>, \<open>\<le>\<close>, \<open>=\<close>, \<open>\<ge>\<close>, \<open>>\<close> against an integer bound.
\<close>

datatype ClockConstraint =
    Less int
  | LessEqual int
  | EqualTo int
  | GreaterEqual int
  | Greater int

fun is_satisfied :: "ClockConstraint \<Rightarrow> Time \<Rightarrow> bool" where
  "is_satisfied (Less n) v = (v < of_int n)"
| "is_satisfied (LessEqual n) v = (v \<le> of_int n)"
| "is_satisfied (EqualTo n) v = (v = of_int n)"
| "is_satisfied (GreaterEqual n) v = (v \<ge> of_int n)"
| "is_satisfied (Greater n) v = (v > of_int n)"

section \<open>Ordered containers\<close>

text \<open>
  A \<^verbatim>\<open>std::set<T>\<close> is represented by the list of its elements in iteration order,
  that is, strictly increasing for \<^verbatim>\<open>operator<\<close> of \<^verbatim>\<open>T\<close>. Pairs, tuples, vectors,
  strings and sets themselves compare lexicographically in C++; so do products and
  lists here. \<open>set_insert\<close> is \<^verbatim>\<open>std::set::insert\<close>: an element equivalent to one
  already present is not inserted.
\<close>

fun set_insert :: "'a::linorder \<Rightarrow> 'a list \<Rightarrow> 'a list" where
  "set_insert x [] = [x]"
| "set_insert x (y # ys) =
     (if x < y then x # y # ys
      else if y < x then y # set_insert x ys
      else y # ys)"

text \<open>\<^verbatim>\<open>s.insert(first, last)\<close>: the elements of a range are inserted one by one.\<close>

definition set_insert_range :: "'a::linorder list \<Rightarrow> 'a list \<Rightarrow> 'a list" where
  "set_insert_range xs s = fold set_insert xs s"

text \<open>
  A \<^verbatim>\<open>std::multimap<K, V>\<close> is the list of its entries in iteration order: sorted by
  key, entries of the same key in the order of their insertion (a new entry goes
  to the upper bound of its key). \<^verbatim>\<open>equal_range\<close> yields the entries of one key.
\<close>

fun multimap_insert :: "'k::linorder \<Rightarrow> 'v \<Rightarrow> ('k \<times> 'v) list \<Rightarrow> ('k \<times> 'v) list" where
  "multimap_insert k v [] = [(k, v)]"
| "multimap_insert k v (e # es) =
     (if k < fst e then (k, v) # e # es else e # multimap_insert k v es)"

definition equal_range :: "('k \<times> 'v) list \<Rightarrow> 'k \<Rightarrow> 'v list" where
  "equal_range m k = map snd (filter (\<lambda>e. fst e = k) m)"

section \<open>Alternating timed automata (ata.h)\<close>

subsection \<open>Formulas\<close>

datatype 'l Formula =
    TrueFormula
  | FalseFormula
  | LocationFormula 'l
  | ClockConstraintFormula ClockConstraint
  | ConjunctionFormula "'l Formula" "'l Formula"
  | DisjunctionFormula "'l Formula" "'l Formula"
  | ResetClockFormula "'l Formula"

type_synonym 'l State = "'l \<times> ClockValuation"
type_synonym 'l Configuration = "'l State list"

text \<open>The subset-minimal members of a set of models.\<close>

definition min_subset :: "'l State list list \<Rightarrow> 'l State list list" where
  "min_subset M = filter (\<lambda>A. \<not> (\<exists>B \<in> set M. set B \<subset> set A)) M"

text \<open>The set of the unions of a model of the first set with a model of the second.\<close>

definition pairwise_unions ::
  "'l::linorder State list list \<Rightarrow> 'l State list list \<Rightarrow> 'l State list list" where
  "pairwise_unions s1 s2 =
     fold (\<lambda>m1 acc. fold (\<lambda>m2 acc'. set_insert (set_insert_range m2 m1) acc') s2 acc) s1 []"

text \<open>
  Modelled from the spec: \<^verbatim>\<open>Formula::get_minimal_models\<close> (ata_formula.h and its
  implementation) is not among the sources. The laws are those of the design's
  section on ATA formulas: \<open>mm(True) = {\<emptyset>}\<close>, \<open>mm(False) = \<emptyset>\<close>,
  \<open>mm(Loc q, v) = {{(q, v)}}\<close>, \<open>mm(Constraint c, v) = {\<emptyset>}\<close> if c holds at v and
  \<open>\<emptyset>\<close> otherwise, \<open>mm(Reset \<phi>, v) = mm(\<phi>, 0)\<close>, for a conjunction the pairwise unions
  of a model of each conjunct, filtered to the subset-minimal ones, and for a
  disjunction the subset-minimal members of the union of the models of the
  disjuncts.
\<close>

fun get_minimal_models :: "'l::linorder Formula \<Rightarrow> ClockValuation \<Rightarrow> 'l State list list" where
  "get_minimal_models TrueFormula v = [[]]"
| "get_minimal_models FalseFormula v = []"
| "get_minimal_models (LocationFormula q) v = [[(q, v)]]"
| "get_minimal_models (ClockConstraintFormula c) v = (if is_satisfied c v then [[]] else [])"
| "get_minimal_models (ConjunctionFormula f1 f2) v =
     min_subset (pairwise_unions (get_minimal_models f1 v) (get_minimal_models f2 v))"
| "get_minimal_models (DisjunctionFormula f1 f2) v =
     min_subset (set_insert_range (get_minimal_models f2 v) (get_minimal_models f1 v))"
| "get_minimal_models (ResetClockFormula f) v = get_minimal_models f 0"

subsection \<open>Automaton and runs\<close>

datatype ata_error =
    WrongTransitionTypeException
  | NegativeTimeDeltaException Time
  | AssertionFailure

record 'l ata_Transition =
  ata_source :: 'l
  ata_symbol :: Symbol
  ata_formula :: "'l Formula"

text \<open>
  The members of \<^verbatim>\<open>std::variant<Symbol, Time>\<close>, and a run: the vector of the steps
  taken, each with the configuration it leads to.
\<close>

datatype step = SymbolStep Symbol | TimeStep Time

type_synonym 'l Run = "(step \<times> 'l Configuration) list"

text \<open>
  The set of transitions is kept in its iteration order; the final locations are
  only ever tested for membership. Members are named as in the class, without
  the trailing underscore and with the namespace in front.
\<close>

record 'l AlternatingTimedAutomaton =
  ata_alphabet :: "Symbol set"
  ata_initial_location :: 'l
  ata_final_locations :: "'l set"
  ata_transitions :: "'l ata_Transition list"

fun holds_symbol :: "step \<Rightarrow> bool" where
  "holds_symbol (SymbolStep a) = True"
| "holds_symbol (TimeStep t) = False"

fun holds_time :: "step \<Rightarrow> bool" where
  "holds_time (SymbolStep a) = False"
| "holds_time (TimeStep t) = True"

text \<open>The configuration a symbol step of a run starts from.\<close>

definition start_states :: "'l AlternatingTimedAutomaton \<Rightarrow> 'l Run \<Rightarrow> 'l Configuration" where
  "start_states ata run =
     (if run = [] then [(ata_initial_location ata, 0)] else snd (last run))"

text \<open>
  The vector \<^verbatim>\<open>models\<close>: for each start state that has a transition on the symbol
  (the first one found), the minimal models of its formula at the state's clock
  value. A state without such a transition contributes nothing.
\<close>

fun state_models ::
  "'l::linorder ata_Transition list \<Rightarrow> Symbol \<Rightarrow> 'l State list \<Rightarrow> 'l Configuration list list" where
  "state_models ts symbol [] = []"
| "state_models ts symbol (state # states) =
     (case find (\<lambda>t. ata_source t = fst state \<and> ata_symbol t = symbol) ts of
        None \<Rightarrow> state_models ts symbol states
      | Some t \<Rightarrow> get_minimal_models (ata_formula t) (snd state) # state_models ts symbol states)"

text \<open>One round of the expansion: every configuration so far united with every model.\<close>

definition expand_configurations ::
  "'l::linorder Configuration list \<Rightarrow> 'l Configuration list \<Rightarrow> 'l Configuration list" where
  "expand_configurations configurations models =
     fold (\<lambda>state_model expanded.
             fold (\<lambda>configuration expanded'.
                     set_insert (set_insert_range state_model configuration) expanded')
                  configurations expanded)
          models []"

text \<open>
  The configurations reached from a non-empty vector of models: those of the first
  entry, expanded by each further entry in turn.
\<close>

definition target_configurations ::
  "'l::linorder Configuration list list \<Rightarrow> 'l Configuration list" where
  "target_configurations models =
     fold (\<lambda>ms configurations. expand_configurations configurations ms)
          (tl models) (fold set_insert (hd models) [])"

text \<open>
  The loop over the given runs. \<open>ndebug\<close> tells whether the program is built with
  \<^verbatim>\<open>NDEBUG\<close>: without it the assertion on the models stops the program, with it the
  function returns an empty vector at once.
\<close>

fun symbol_transition_loop ::
  "bool \<Rightarrow> 'l::linorder AlternatingTimedAutomaton \<Rightarrow> 'l Run list \<Rightarrow> Symbol \<Rightarrow> 'l Run list
     \<Rightarrow> ata_error + 'l Run list" where
  "symbol_transition_loop ndebug ata [] symbol res = Inr res"
| "symbol_transition_loop ndebug ata (run # runs) symbol res =
     (if run \<noteq> [] \<and> holds_symbol (fst (last run)) then Inl WrongTransitionTypeException
      else
        let models = state_models (ata_transitions ata) symbol (start_states ata run) in
        if models = [] then (if ndebug then Inr [] else Inl AssertionFailure)
        else symbol_transition_loop ndebug ata runs symbol
               (res @ map (\<lambda>c. run @ [(SymbolStep symbol, c)]) (target_configurations models)))"

definition make_symbol_transition ::
  "bool \<Rightarrow> 'l::linorder AlternatingTimedAutomaton \<Rightarrow> 'l Run list \<Rightarrow> Symbol
     \<Rightarrow> ata_error + 'l Run list" where
  "make_symbol_transition ndebug ata runs symbol =
     symbol_transition_loop ndebug ata runs symbol []"

text \<open>\<^verbatim>\<open>std::transform\<close> into a set: every state with the time added to its clock.\<close>

definition advance_states :: "'l::linorder Configuration \<Rightarrow> Time \<Rightarrow> 'l Configuration" where
  "advance_states states time =
     fold (\<lambda>s res_states. set_insert (fst s, snd s + time) res_states) states []"

fun time_transition_loop ::
  "'l::linorder Run list \<Rightarrow> Time \<Rightarrow> 'l Run list \<Rightarrow> ata_error + 'l Run list" where
  "time_transition_loop [] time res = Inr res"
| "time_transition_loop (run # runs) time res =
     (if run = [] then Inl WrongTransitionTypeException
      else if holds_time (fst (last run)) then Inl WrongTransitionTypeException
      else time_transition_loop runs time
             (res @ [run @ [(TimeStep time, advance_states (snd (last run)) time)]]))"

definition make_time_transition ::
  "'l::linorder AlternatingTimedAutomaton \<Rightarrow> 'l Run list \<Rightarrow> Time \<Rightarrow> ata_error + 'l Run list" where
  "make_time_transition ata runs time =
     (if time < 0 then Inl (NegativeTimeDeltaException time)
      else time_transition_loop runs time [])"

text \<open>
  Reading the rest of a timed word: a time step by the difference to the previous
  time stamp, then the symbol step.
\<close>

fun read_timed_symbols ::
  "bool \<Rightarrow> 'l::linorder AlternatingTimedAutomaton \<Rightarrow> (Symbol \<times> Time) list \<Rightarrow> 'l Run list \<Rightarrow> Time
     \<Rightarrow> ata_error + 'l Run list" where
  "read_timed_symbols ndebug ata [] runs last_time = Inr runs"
| "read_timed_symbols ndebug ata ((symbol, time) # word) runs last_time =
     (case make_time_transition ata runs (time - last_time) of
        Inl e \<Rightarrow> Inl e
      | Inr runs' \<Rightarrow>
          (case make_symbol_transition ndebug ata runs' symbol of
             Inl e \<Rightarrow> Inl e
           | Inr runs'' \<Rightarrow> read_timed_symbols ndebug ata word runs'' time))"

fun ata_accepts_word ::
  "bool \<Rightarrow> 'l::linorder AlternatingTimedAutomaton \<Rightarrow> (Symbol \<times> Time) list \<Rightarrow> ata_error + bool" where
  "ata_accepts_word ndebug ata [] = Inr False"
| "ata_accepts_word ndebug ata ((symbol, time) # word) =
     (case make_symbol_transition ndebug ata [[]] symbol of
        Inl e \<Rightarrow> Inl e
      | Inr runs \<Rightarrow>
          (case read_timed_symbols ndebug ata word runs time of
             Inl e \<Rightarrow> Inl e
           | Inr runs' \<Rightarrow>
               Inr (\<exists>run \<in> set runs'.
                      \<forall>state \<in> set (snd (last run)). fst state \<in> ata_final_locations ata)))"

section \<open>Acceptance of the empty word\<close>

text \<open>
  C9: for every alternating timed automaton, \<^verbatim>\<open>accepts_word\<close> returns false on the
  empty timed word, whatever the initial and the final locations are (so also when
  the initial location is final).
\<close>

theorem ata_accepts_word_empty:
  "ata_accepts_word ndebug ata [] = Inr False"
  by simp

section \<open>Symbol and time steps of an alternating timed automaton\<close>

subsection \<open>Sets of models\<close>

text \<open>
  For the statements, a \<^verbatim>\<open>std::set\<close> of configurations is read as the set of sets it
  stands for. \<open>unions_of X Y\<close> holds the unions of a member of \<open>X\<close> with a member of
  \<open>Y\<close>, and \<open>choose_unions\<close> the unions obtained by choosing one member from every
  set of a list.
\<close>

definition unions_of :: "'a set set \<Rightarrow> 'a set set \<Rightarrow> 'a set set" where
  "unions_of X Y = (\<lambda>(A, B). A \<union> B) ` (X \<times> Y)"

fun choose_unions :: "'a set set list \<Rightarrow> 'a set set" where
  "choose_unions [] = {{}}"
| "choose_unions (M # Ms) = unions_of M (choose_unions Ms)"

definition models_set :: "'a list list \<Rightarrow> 'a set set" where
  "models_set M = set ` set M"

lemma set_set_insert: "set (set_insert x xs) = insert x (set xs)"
  by (induction xs) auto

lemma set_fold_set_insert: "set (fold (\<lambda>x acc. set_insert (g x) acc) xs s) = g ` set xs \<union> set s"
  by (induction xs arbitrary: s) (auto simp: set_set_insert)

lemma set_set_insert_range: "set (set_insert_range xs s) = set xs \<union> set s"
  unfolding set_insert_range_def using set_fold_set_insert [of "\<lambda>x. x" xs s] by simp

lemma unions_of_iff: "C \<in> unions_of X Y \<longleftrightarrow> (\<exists>A \<in> X. \<exists>B \<in> Y. C = A \<union> B)"
  unfolding unions_of_def by auto

lemma unions_of_assoc: "unions_of (unions_of X Y) Z = unions_of X (unions_of Y Z)"
proof (rule set_eqI)
  fix C
  show "C \<in> unions_of (unions_of X Y) Z \<longleftrightarrow> C \<in> unions_of X (unions_of Y Z)"
  proof
    assume "C \<in> unions_of (unions_of X Y) Z"
    then obtain A B D where "A \<in> X" "B \<in> Y" "D \<in> Z" "C = (A \<union> B) \<union> D"
      by (auto simp: unions_of_iff)
    then have "C = A \<union> (B \<union> D)" "B \<union> D \<in> unions_of Y Z"
      by (auto simp: unions_of_iff)
    with \<open>A \<in> X\<close> show "C \<in> unions_of X (unions_of Y Z)"
      unfolding unions_of_iff [of C] by blast
  next
    assume "C \<in> unions_of X (unions_of Y Z)"
    then obtain A B D where "A \<in> X" "B \<in> Y" "D \<in> Z" "C = A \<union> (B \<union> D)"
      by (auto simp: unions_of_iff)
    then have "C = (A \<union> B) \<union> D" "A \<union> B \<in> unions_of X Y"
      by (auto simp: unions_of_iff)
    with \<open>D \<in> Z\<close> show "C \<in> unions_of (unions_of X Y) Z"
      unfolding unions_of_iff [of C] by blast
  qed
qed

lemma unions_of_empty_model: "unions_of X {{}} = X"
  by (rule set_eqI) (simp add: unions_of_iff)

lemma unions_of_Nil: "unions_of X {} = {}"
  by (rule set_eqI) (simp add: unions_of_iff)

lemma unions_of_insert:
  "unions_of X (insert B Y) = (\<lambda>A. B \<union> A) ` X \<union> unions_of X Y"
  by (rule set_eqI) (auto simp: unions_of_iff)

lemma models_set_fold_inner:
  "models_set (fold (\<lambda>c e. set_insert (set_insert_range m c) e) cs e0) =
     (\<lambda>A. set m \<union> A) ` models_set cs \<union> models_set e0"
  unfolding models_set_def
  by (simp add: set_fold_set_insert image_Un image_image set_set_insert_range)

lemma models_set_fold_outer:
  "models_set (fold (\<lambda>m e. fold (\<lambda>c e'. set_insert (set_insert_range m c) e') cs e) ms e0) =
     unions_of (models_set cs) (models_set ms) \<union> models_set e0"
proof (induction ms arbitrary: e0)
  case Nil
  show ?case by (simp add: unions_of_Nil models_set_def)
next
  case (Cons m ms)
  have "models_set (m # ms) = insert (set m) (models_set ms)"
    by (simp add: models_set_def)
  then show ?case
    by (simp add: Cons.IH models_set_fold_inner unions_of_insert Un_assoc Un_left_commute Un_commute)
qed

lemma models_set_expand:
  "models_set (expand_configurations cs ms) = unions_of (models_set cs) (models_set ms)"
  unfolding expand_configurations_def
  by (simp add: models_set_fold_outer) (simp add: models_set_def)

lemma models_set_fold_expand:
  "models_set (fold (\<lambda>ms cs. expand_configurations cs ms) Ms cs) =
     unions_of (models_set cs) (choose_unions (map models_set Ms))"
  by (induction Ms arbitrary: cs)
     (simp_all add: unions_of_empty_model models_set_expand unions_of_assoc)

lemma models_set_fold_insert: "models_set (fold set_insert M []) = models_set M"
  unfolding models_set_def using set_fold_set_insert [of "\<lambda>x. x" M "[]"] by simp

lemma models_set_target_configurations:
  "models \<noteq> [] \<Longrightarrow>
   models_set (target_configurations models) = choose_unions (map models_set models)"
  unfolding target_configurations_def
  by (cases models) (simp_all add: models_set_fold_expand models_set_fold_insert)

subsection \<open>The loops over the runs\<close>

text \<open>
  The last step of a run, the models the start states of a run contribute for a
  symbol, and the runs the two operations append to a single run.
\<close>

definition ends_with_symbol :: "'l Run \<Rightarrow> bool" where
  "ends_with_symbol run = (run \<noteq> [] \<and> holds_symbol (fst (last run)))"

definition ends_with_time :: "'l Run \<Rightarrow> bool" where
  "ends_with_time run = (run \<noteq> [] \<and> holds_time (fst (last run)))"

definition run_models ::
  "'l::linorder AlternatingTimedAutomaton \<Rightarrow> Symbol \<Rightarrow> 'l Run \<Rightarrow> 'l Configuration list list" where
  "run_models ata symbol run = state_models (ata_transitions ata) symbol (start_states ata run)"

definition symbol_successors ::
  "'l::linorder AlternatingTimedAutomaton \<Rightarrow> Symbol \<Rightarrow> 'l Run \<Rightarrow> 'l Run list" where
  "symbol_successors ata symbol run =
     map (\<lambda>c. run @ [(SymbolStep symbol, c)]) (target_configurations (run_models ata symbol run))"

definition time_successor :: "Time \<Rightarrow> 'l::linorder Run \<Rightarrow> 'l Run" where
  "time_successor time run = run @ [(TimeStep time, advance_states (snd (last run)) time)]"

text \<open>No two neighbouring steps of a run are of the same kind.\<close>

fun alternating :: "'l Run \<Rightarrow> bool" where
  "alternating [] = True"
| "alternating [s] = True"
| "alternating (s # s' # run) =
     (holds_symbol (fst s) \<noteq> holds_symbol (fst s') \<and> alternating (s' # run))"

lemma holds_time_iff: "holds_time s = (\<not> holds_symbol s)"
  by (cases s) simp_all

lemma symbol_loop_Cons:
  "symbol_transition_loop ndebug ata (run # runs) symbol res =
     (if ends_with_symbol run then Inl WrongTransitionTypeException
      else if run_models ata symbol run = [] then (if ndebug then Inr [] else Inl AssertionFailure)
      else symbol_transition_loop ndebug ata runs symbol (res @ symbol_successors ata symbol run))"
  by (simp add: ends_with_symbol_def run_models_def symbol_successors_def Let_def)

lemma symbol_loop_succeeds:
  "(\<forall>run \<in> set runs. \<not> ends_with_symbol run \<and> run_models ata symbol run \<noteq> []) \<Longrightarrow>
   symbol_transition_loop ndebug ata runs symbol res =
     Inr (res @ concat (map (symbol_successors ata symbol) runs))"
proof (induction runs arbitrary: res)
  case Nil
  show ?case by simp
next
  case (Cons run runs)
  then show ?case
    by (simp add: symbol_loop_Cons del: symbol_transition_loop.simps)
qed

lemma symbol_loop_wrong_type:
  "symbol_transition_loop ndebug ata runs symbol res = Inl WrongTransitionTypeException \<longleftrightarrow>
   (\<exists>pre run post. runs = pre @ run # post \<and> ends_with_symbol run \<and>
      (\<forall>r \<in> set pre. \<not> ends_with_symbol r \<and> run_models ata symbol r \<noteq> []))"
proof (induction runs arbitrary: res)
  case Nil
  show ?case by simp
next
  case (Cons r0 runs)
  show ?case
  proof (cases "ends_with_symbol r0")
    case True
    then have "symbol_transition_loop ndebug ata (r0 # runs) symbol res =
        Inl WrongTransitionTypeException"
      by (simp add: symbol_loop_Cons del: symbol_transition_loop.simps)
    moreover from True have "r0 # runs = [] @ r0 # runs \<and> ends_with_symbol r0 \<and>
        (\<forall>r \<in> set []. \<not> ends_with_symbol r \<and> run_models ata symbol r \<noteq> [])"
      by simp
    ultimately show ?thesis by blast
  next
    case notsym: False
    have decomp: "(\<exists>pre run post. r0 # runs = pre @ run # post \<and> ends_with_symbol run \<and>
          (\<forall>r \<in> set pre. \<not> ends_with_symbol r \<and> run_models ata symbol r \<noteq> [])) \<longleftrightarrow>
        run_models ata symbol r0 \<noteq> [] \<and>
        (\<exists>pre run post. runs = pre @ run # post \<and> ends_with_symbol run \<and>
          (\<forall>r \<in> set pre. \<not> ends_with_symbol r \<and> run_models ata symbol r \<noteq> []))"
      (is "?L \<longleftrightarrow> ?M \<and> ?R")
    proof
      assume ?L
      then obtain pre run post where d: "r0 # runs = pre @ run # post" "ends_with_symbol run"
        "\<forall>r \<in> set pre. \<not> ends_with_symbol r \<and> run_models ata symbol r \<noteq> []"
        by blast
      from d(1,2) notsym obtain pre' where p: "pre = r0 # pre'" "runs = pre' @ run # post"
        by (cases pre) auto
      with d show "?M \<and> ?R" by auto
    next
      assume "?M \<and> ?R"
      then obtain pre run post where d: "runs = pre @ run # post" "ends_with_symbol run"
        "\<forall>r \<in> set pre. \<not> ends_with_symbol r \<and> run_models ata symbol r \<noteq> []"
        and m: ?M
        by blast
      from d m notsym have "r0 # runs = (r0 # pre) @ run # post \<and> ends_with_symbol run \<and>
        (\<forall>r \<in> set (r0 # pre). \<not> ends_with_symbol r \<and> run_models ata symbol r \<noteq> [])"
        by simp
      then show ?L by blast
    qed
    show ?thesis
    proof (cases "run_models ata symbol r0 = []")
      case True
      with notsym have "symbol_transition_loop ndebug ata (r0 # runs) symbol res \<noteq>
          Inl WrongTransitionTypeException"
        by (simp add: symbol_loop_Cons del: symbol_transition_loop.simps)
      with True decomp show ?thesis by simp
    next
      case False
      with notsym have "symbol_transition_loop ndebug ata (r0 # runs) symbol res =
          symbol_transition_loop ndebug ata runs symbol (res @ symbol_successors ata symbol r0)"
        by (simp add: symbol_loop_Cons del: symbol_transition_loop.simps)
      with False decomp Cons.IH show ?thesis by simp
    qed
  qed
qed

lemma time_loop_wrong_type:
  "time_transition_loop runs time res = Inl WrongTransitionTypeException \<longleftrightarrow>
   (\<exists>run \<in> set runs. run = [] \<or> holds_time (fst (last run)))"
  by (induction runs arbitrary: res) auto

lemma time_loop_succeeds:
  "(\<forall>run \<in> set runs. ends_with_symbol run) \<Longrightarrow>
   time_transition_loop runs time res = Inr (res @ map (time_successor time) runs)"
  by (induction runs arbitrary: res)
     (auto simp: ends_with_symbol_def holds_time_iff time_successor_def)

lemma advance_states_set:
  "set (advance_states states time) = (\<lambda>s. (fst s, snd s + time)) ` set states"
  unfolding advance_states_def by (simp add: set_fold_set_insert)

lemma alternating_snoc:
  "alternating (run @ [s]) \<longleftrightarrow>
     alternating run \<and> (run = [] \<or> holds_symbol (fst (last run)) \<noteq> holds_symbol (fst s))"
  by (induction run rule: alternating.induct) auto

lemma symbol_loop_results:
  "symbol_transition_loop ndebug ata runs symbol res = Inr out \<Longrightarrow> r \<in> set out \<Longrightarrow>
   r \<in> set res \<or> (\<exists>run \<in> set runs. \<exists>c. \<not> ends_with_symbol run \<and> r = run @ [(SymbolStep symbol, c)])"
proof (induction runs arbitrary: res)
  case Nil
  then show ?case by simp
next
  case (Cons r0 runs)
  show ?case
  proof (cases "ends_with_symbol r0 \<or> run_models ata symbol r0 = []")
    case True
    with Cons.prems show ?thesis
      by (auto simp: symbol_loop_Cons simp del: symbol_transition_loop.simps split: if_splits)
  next
    case False
    then have "symbol_transition_loop ndebug ata (r0 # runs) symbol res =
          symbol_transition_loop ndebug ata runs symbol (res @ symbol_successors ata symbol r0)"
      by (simp add: symbol_loop_Cons del: symbol_transition_loop.simps)
    with Cons.prems Cons.IH [of "res @ symbol_successors ata symbol r0"]
    have "r \<in> set (res @ symbol_successors ata symbol r0) \<or>
        (\<exists>run \<in> set runs. \<exists>c. \<not> ends_with_symbol run \<and> r = run @ [(SymbolStep symbol, c)])"
      by simp
    with False show ?thesis
      by (auto simp: symbol_successors_def)
  qed
qed

lemma time_loop_results:
  "time_transition_loop runs time res = Inr out \<Longrightarrow> r \<in> set out \<Longrightarrow>
   r \<in> set res \<or> (\<exists>run \<in> set runs. \<exists>c. ends_with_symbol run \<and> r = run @ [(TimeStep time, c)])"
proof (induction runs arbitrary: res)
  case Nil
  then show ?case by simp
next
  case (Cons r0 runs)
  from Cons.prems(1) have ok: "ends_with_symbol r0"
    and step: "time_transition_loop runs time (res @ [time_successor time r0]) = Inr out"
    by (auto simp: ends_with_symbol_def holds_time_iff time_successor_def split: if_splits)
  from Cons.IH [OF step Cons.prems(2)] ok show ?case
    by (auto simp: time_successor_def)
qed

lemma symbol_transition_alternating:
  assumes "make_symbol_transition ndebug ata runs symbol = Inr out"
    and "\<forall>run \<in> set runs. alternating run"
    and "r \<in> set out"
  shows "alternating r"
proof -
  from symbol_loop_results [OF assms(1) [unfolded make_symbol_transition_def] assms(3)]
  obtain run c where "run \<in> set runs" "\<not> ends_with_symbol run" "r = run @ [(SymbolStep symbol, c)]"
    by auto
  with assms(2) show ?thesis
    by (auto simp: alternating_snoc ends_with_symbol_def)
qed

lemma time_transition_alternating:
  assumes "make_time_transition ata runs time = Inr out"
    and "\<forall>run \<in> set runs. alternating run"
    and "r \<in> set out"
  shows "alternating r"
proof -
  from assms(1) have "time_transition_loop runs time [] = Inr out"
    by (simp add: make_time_transition_def split: if_splits)
  from time_loop_results [OF this assms(3)]
  obtain run c where "run \<in> set runs" "ends_with_symbol run" "r = run @ [(TimeStep time, c)]"
    by auto
  with assms(2) show ?thesis
    by (auto simp: alternating_snoc ends_with_symbol_def)
qed

text \<open>
  The vectors of runs the two operations produce, starting from the vector that
  holds the empty run only (as \<^verbatim>\<open>accepts_word\<close> does).
\<close>

inductive produced_runs ::
  "bool \<Rightarrow> 'l::linorder AlternatingTimedAutomaton \<Rightarrow> 'l Run list \<Rightarrow> bool"
  for ndebug :: bool and ata :: "'l AlternatingTimedAutomaton" where
  initial: "produced_runs ndebug ata [[]]"
| symbol: "produced_runs ndebug ata runs \<Longrightarrow>
     make_symbol_transition ndebug ata runs symbol = Inr runs' \<Longrightarrow> produced_runs ndebug ata runs'"
| time: "produced_runs ndebug ata runs \<Longrightarrow>
     make_time_transition ata runs time = Inr runs' \<Longrightarrow> produced_runs ndebug ata runs'"

lemma produced_runs_alternating:
  "produced_runs ndebug ata runs \<Longrightarrow> \<forall>r \<in> set runs. alternating r"
proof (induction rule: produced_runs.induct)
  case initial
  show ?case by simp
next
  case (symbol runs symbol runs')
  then show ?case using symbol_transition_alternating by blast
next
  case (time runs time runs')
  then show ?case using time_transition_alternating by blast
qed

lemma time_loop_not_negative:
  "time_transition_loop runs time res \<noteq> Inl (NegativeTimeDeltaException d)"
  by (induction runs arbitrary: res) auto

text \<open>
  For comparison, the wording of the design document. \<open>delta ata q a\<close> is the
  transition formula \<open>\<Delta>(q, a)\<close>, the formula of the first transition from \<open>q\<close> on
  \<open>a\<close>, if there is one. \<open>state_model_sets\<close> lists, for every state \<open>(q, v)\<close> of a
  configuration that has such a formula, the minimal models of \<open>\<Delta>(q, a)\<close> at the
  clock value \<open>v\<close> of that state. The models of the conjunction take one model from
  every entry and unite them; the minimal models of the disjunction are the
  subset-minimal members of all entries together.
\<close>

definition delta ::
  "'l AlternatingTimedAutomaton \<Rightarrow> 'l \<Rightarrow> Symbol \<Rightarrow> 'l Formula option" where
  "delta ata q a =
     map_option ata_formula
       (find (\<lambda>t. ata_source t = q \<and> ata_symbol t = a) (ata_transitions ata))"

definition state_model_sets ::
  "'l::linorder AlternatingTimedAutomaton \<Rightarrow> Symbol \<Rightarrow> 'l Configuration \<Rightarrow> 'l State set set list" where
  "state_model_sets ata a C =
     concat (map (\<lambda>state. case delta ata (fst state) a of
                             None \<Rightarrow> []
                           | Some f \<Rightarrow> [models_set (get_minimal_models f (snd state))]) C)"

definition conjunction_models ::
  "'l::linorder AlternatingTimedAutomaton \<Rightarrow> Symbol \<Rightarrow> 'l Configuration \<Rightarrow> 'l State set set" where
  "conjunction_models ata a C = choose_unions (state_model_sets ata a C)"

definition minimal_sets :: "'a set set \<Rightarrow> 'a set set" where
  "minimal_sets X = {A \<in> X. \<not> (\<exists>B \<in> X. B \<subset> A)}"

definition disjunction_minimal_models ::
  "'l::linorder AlternatingTimedAutomaton \<Rightarrow> Symbol \<Rightarrow> 'l Configuration \<Rightarrow> 'l State set set" where
  "disjunction_minimal_models ata a C = minimal_sets (\<Union> (set (state_model_sets ata a C)))"

text \<open>
  The condition of the assertion in \<^verbatim>\<open>make_symbol_transition\<close>: some start state of
  the run has a transition on the symbol.
\<close>

definition has_transition ::
  "'l AlternatingTimedAutomaton \<Rightarrow> Symbol \<Rightarrow> 'l Run \<Rightarrow> bool" where
  "has_transition ata a run =
     (\<exists>state \<in> set (start_states ata run). delta ata (fst state) a \<noteq> None)"

lemma state_models_model_sets:
  "map models_set (state_models (ata_transitions ata) a C) = state_model_sets ata a C"
  unfolding state_model_sets_def delta_def
  by (induction C) (auto split: option.splits)

lemma run_models_model_sets:
  "map models_set (run_models ata a run) = state_model_sets ata a (start_states ata run)"
  unfolding run_models_def by (rule state_models_model_sets)

lemma state_models_empty_iff:
  "state_models (ata_transitions ata) a C = [] \<longleftrightarrow>
     \<not> (\<exists>state \<in> set C. delta ata (fst state) a \<noteq> None)"
  unfolding delta_def by (induction C) (auto split: option.splits)

lemma run_models_has_transition:
  "run_models ata a run \<noteq> [] \<longleftrightarrow> has_transition ata a run"
  unfolding run_models_def has_transition_def by (simp add: state_models_empty_iff)

lemma symbol_successors_models:
  assumes "has_transition ata a run"
  shows "models_set (map (\<lambda>r. snd (last r)) (symbol_successors ata a run)) =
           conjunction_models ata a (start_states ata run)"
proof -
  from assms have ne: "run_models ata a run \<noteq> []"
    by (simp add: run_models_has_transition)
  have "map (\<lambda>r. snd (last r)) (symbol_successors ata a run) =
      target_configurations (run_models ata a run)"
    unfolding symbol_successors_def by (simp add: comp_def)
  with models_set_target_configurations [OF ne] show ?thesis
    by (simp add: conjunction_models_def run_models_model_sets)
qed

lemma symbol_successors_shape:
  "r \<in> set (symbol_successors ata a run) \<Longrightarrow> butlast r = run \<and> fst (last r) = SymbolStep a"
  unfolding symbol_successors_def by auto

text \<open>
  An automaton that splits into two locations on its first \<^verbatim>\<open>a\<close>; on every further
  \<^verbatim>\<open>a\<close> location 1 resets its clock and location 2 keeps it.
\<close>

definition ata_two_branches :: "nat AlternatingTimedAutomaton" where
  "ata_two_branches =
     \<lparr>ata_alphabet = {''a''}, ata_initial_location = 0, ata_final_locations = {1, 2},
      ata_transitions =
        [\<lparr>ata_source = 0, ata_symbol = ''a'',
          ata_formula = ConjunctionFormula (LocationFormula 1) (LocationFormula 2)\<rparr>,
         \<lparr>ata_source = 1, ata_symbol = ''a'',
          ata_formula = ResetClockFormula (LocationFormula 1)\<rparr>,
         \<lparr>ata_source = 2, ata_symbol = ''a'', ata_formula = LocationFormula 2\<rparr>]\<rparr>"

text \<open>A run of this automaton on \<^verbatim>\<open>(a, 0) (a, 1)\<close>, with one more time unit elapsed.\<close>

definition run_two_branches :: "nat Run" where
  "run_two_branches =
     [(SymbolStep ''a'', [(1, 0), (2, 0)]), (TimeStep 1, [(1, 1), (2, 1)]),
      (SymbolStep ''a'', [(1, 0), (2, 1)]), (TimeStep 1, [(1, 1), (2, 2)])]"

text \<open>
  C1, as the code has it. Given a vector of runs each of which is empty or ends
  with a time step and meets the assertion of the function (some start state has a
  transition on the symbol), \<^verbatim>\<open>make_symbol_transition\<close> returns, run by run, the run
  extended by a symbol step to each of its successor configurations, and nothing
  else. The successor configurations of a run are the unions that take one minimal
  model of the transition formula \<open>\<Delta>(q, a)\<close> for every start state \<open>(q, v)\<close> having a
  transition on the symbol, the formula read at the clock value \<open>v\<close> of that state:
  the models of the conjunction of these formulas, not of their disjunction.
  Given a non-negative delta and a vector of runs that all end with a symbol
  step, \<^verbatim>\<open>make_time_transition\<close> extends every run by a time step to its last
  configuration with the delta added to the clock of every state.
\<close>

theorem symbol_step_is_product_of_minimal_models:
  "((\<forall>run \<in> set runs. \<not> ends_with_symbol run \<and> has_transition ata a run) \<longrightarrow>
      make_symbol_transition ndebug ata runs a =
        Inr (concat (map (symbol_successors ata a) runs)) \<and>
      (\<forall>run \<in> set runs.
         (\<forall>r \<in> set (symbol_successors ata a run). butlast r = run \<and> fst (last r) = SymbolStep a) \<and>
         models_set (map (\<lambda>r. snd (last r)) (symbol_successors ata a run)) =
           conjunction_models ata a (start_states ata run))) \<and>
   (0 \<le> time \<and> (\<forall>run \<in> set runs. ends_with_symbol run) \<longrightarrow>
      make_time_transition ata runs time = Inr (map (time_successor time) runs) \<and>
      (\<forall>run \<in> set runs.
         butlast (time_successor time run) = run \<and>
         fst (last (time_successor time run)) = TimeStep time \<and>
         set (snd (last (time_successor time run))) =
           (\<lambda>s. (fst s, snd s + time)) ` set (snd (last run))))"
proof (intro conjI impI ballI)
  assume h: "\<forall>run \<in> set runs. \<not> ends_with_symbol run \<and> has_transition ata a run"
  then show "make_symbol_transition ndebug ata runs a =
        Inr (concat (map (symbol_successors ata a) runs))"
    unfolding make_symbol_transition_def
    by (simp add: symbol_loop_succeeds run_models_has_transition)
  fix run assume run: "run \<in> set runs"
  show "butlast r = run" if "r \<in> set (symbol_successors ata a run)" for r
    using that symbol_successors_shape by blast
  show "fst (last r) = SymbolStep a" if "r \<in> set (symbol_successors ata a run)" for r
    using that symbol_successors_shape by blast
  from h run show "models_set (map (\<lambda>r. snd (last r)) (symbol_successors ata a run)) =
           conjunction_models ata a (start_states ata run)"
    by (simp add: symbol_successors_models)
next
  assume "0 \<le> time \<and> (\<forall>run \<in> set runs. ends_with_symbol run)"
  then show "make_time_transition ata runs time = Inr (map (time_successor time) runs)"
    unfolding make_time_transition_def by (simp add: time_loop_succeeds)
next
  fix run
  show "butlast (time_successor time run) = run"
    by (simp add: time_successor_def)
  show "fst (last (time_successor time run)) = TimeStep time"
    by (simp add: time_successor_def)
  show "set (snd (last (time_successor time run))) =
           (\<lambda>s. (fst s, snd s + time)) ` set (snd (last run))"
    by (simp add: time_successor_def advance_states_set)
qed

lemma two_branches_step:
  "make_symbol_transition ndebug ata_two_branches [run_two_branches] ''a'' =
     Inr [run_two_branches @ [(SymbolStep ''a'', [(1, 0), (2, 2)])]]"
  by (simp add: make_symbol_transition_def ata_two_branches_def run_two_branches_def
      start_states_def target_configurations_def expand_configurations_def
      set_insert_range_def Let_def)

lemma two_branches_model_sets:
  "state_model_sets ata_two_branches ''a'' [(1, 1), (2, 2)] = [{{(1, 0)}}, {{(2, 2)}}]"
  by (simp add: state_model_sets_def delta_def ata_two_branches_def models_set_def)

text \<open>
  The run of the automaton with two branches: its last configuration holds location
  1 at clock value 1 and location 2 at clock value 2.
\<close>

theorem symbol_step_is_product_of_minimal_models_witness:
  "make_symbol_transition True ata_two_branches [run_two_branches] ''a'' =
     Inr [run_two_branches @ [(SymbolStep ''a'', [(1, 0), (2, 2)])]] \<and>
   conjunction_models ata_two_branches ''a'' (start_states ata_two_branches run_two_branches) =
     {{(1, 0), (2, 2)}} \<and>
   models_set (map (\<lambda>r. snd (last r)) (symbol_successors ata_two_branches ''a'' run_two_branches)) =
     {{(1, 0), (2, 2)}} \<and>
   make_time_transition ata_two_branches [[(SymbolStep ''a'', [(1, 0), (2, 1)])]] 1 =
     Inr [[(SymbolStep ''a'', [(1, 0), (2, 1)]), (TimeStep 1, [(1, 1), (2, 2)])]]"
proof -
  have start: "start_states ata_two_branches run_two_branches = [(1, 1), (2, 2)]"
    by (simp add: start_states_def run_two_branches_def)
  have h: "\<forall>run \<in> set [run_two_branches].
      \<not> ends_with_symbol run \<and> has_transition ata_two_branches ''a'' run"
  proof -
    have "\<not> ends_with_symbol run_two_branches"
      by (simp add: ends_with_symbol_def run_two_branches_def)
    moreover have "delta ata_two_branches (fst (1, 1::rat)) ''a'' \<noteq> None"
      by (simp add: delta_def ata_two_branches_def)
    then have "has_transition ata_two_branches ''a'' run_two_branches"
      unfolding has_transition_def start by (intro bexI [of _ "(1, 1)"]) simp_all
    ultimately show ?thesis by simp
  qed
  have c: "conjunction_models ata_two_branches ''a'' [(1, 1), (2, 2)] = {{(1, 0), (2, 2)}}"
    unfolding conjunction_models_def two_branches_model_sets
    by (auto simp: unions_of_def)
  have t: "0 \<le> (1::rat) \<and> (\<forall>run \<in> set [[(SymbolStep ''a'', [(1::nat, 0::rat), (2, 1)])]].
      ends_with_symbol run)"
    by (simp add: ends_with_symbol_def)
  note A = symbol_step_is_product_of_minimal_models
      [of "[run_two_branches]" ata_two_branches "''a''" True 0, THEN conjunct1, THEN mp, OF h]
  note B = symbol_step_is_product_of_minimal_models
      [of "[[(SymbolStep ''a'', [(1, 0), (2, 1)])]]" ata_two_branches "''a''" True 1,
       THEN conjunct2, THEN mp, OF t]
  have c': "conjunction_models ata_two_branches ''a''
      (start_states ata_two_branches run_two_branches) = {{(1, 0), (2, 2)}}"
    by (simp only: start c)
  from A have 1: "models_set (map (\<lambda>r. snd (last r))
        (symbol_successors ata_two_branches ''a'' run_two_branches)) = {{(1, 0), (2, 2)}}"
    by (simp add: c')
  from B have 2: "make_time_transition ata_two_branches [[(SymbolStep ''a'', [(1, 0), (2, 1)])]] 1 =
     Inr [[(SymbolStep ''a'', [(1, 0), (2, 1)]), (TimeStep 1, [(1, 1), (2, 2)])]]"
    by (simp add: time_successor_def advance_states_def)
  from 1 2 c' two_branches_step [of True] show ?thesis by simp
qed

text \<open>
  In the same situation the disjunction of the two transition formulas has the
  minimal models \<open>{(1, 0)}\<close> and \<open>{(2, 2)}\<close>; the configuration the run is extended
  with is neither of them, with assertions on or off.
\<close>

theorem symbol_step_disjunction_counterexample:
  "make_symbol_transition True ata_two_branches [run_two_branches] ''a'' =
     Inr [run_two_branches @ [(SymbolStep ''a'', [(1, 0), (2, 2)])]] \<and>
   make_symbol_transition False ata_two_branches [run_two_branches] ''a'' =
     Inr [run_two_branches @ [(SymbolStep ''a'', [(1, 0), (2, 2)])]] \<and>
   snd (last run_two_branches) = [(1, 1), (2, 2)] \<and>
   disjunction_minimal_models ata_two_branches ''a'' [(1, 1), (2, 2)] = {{(1, 0)}, {(2, 2)}} \<and>
   set [(1, 0), (2, 2)] \<notin> disjunction_minimal_models ata_two_branches ''a'' [(1, 1), (2, 2)]"
proof -
  have d: "disjunction_minimal_models ata_two_branches ''a'' [(1, 1), (2, 2)] =
      {{(1, 0)}, {(2, 2)}}"
    unfolding disjunction_minimal_models_def two_branches_model_sets
    by (auto simp: minimal_sets_def)
  have n: "set [(1, 0), (2, 2)] \<notin> disjunction_minimal_models ata_two_branches ''a'' [(1, 1), (2, 2)]"
    unfolding d by auto
  have l: "snd (last run_two_branches) = [(1, 1), (2, 2)]"
    by (simp add: run_two_branches_def)
  from d n l two_branches_step [of True] two_branches_step [of False] show ?thesis by simp
qed

text \<open>An automaton with one location that loops on \<^verbatim>\<open>a\<close>.\<close>

definition ata_loop :: "nat AlternatingTimedAutomaton" where
  "ata_loop =
     \<lparr>ata_alphabet = {''a''}, ata_initial_location = 0, ata_final_locations = {0},
      ata_transitions = [\<lparr>ata_source = 0, ata_symbol = ''a'', ata_formula = LocationFormula 0\<rparr>]\<rparr>"

lemma symbol_transition_wrong_type_only_if:
  "make_symbol_transition ndebug ata runs a = Inl WrongTransitionTypeException \<Longrightarrow>
   \<exists>run \<in> set runs. ends_with_symbol run"
  unfolding make_symbol_transition_def symbol_loop_wrong_type by auto

lemma symbol_transition_wrong_type_if:
  assumes "\<forall>run \<in> set runs. \<not> ends_with_symbol run \<longrightarrow> has_transition ata a run"
    and "\<exists>run \<in> set runs. ends_with_symbol run"
  shows "make_symbol_transition ndebug ata runs a = Inl WrongTransitionTypeException"
proof -
  from assms(2) obtain pre run post where d: "runs = pre @ run # post" "ends_with_symbol run"
    "\<forall>r \<in> set pre. \<not> ends_with_symbol r"
    using split_list_first_prop [of runs ends_with_symbol] by blast
  with assms(1) have "\<forall>r \<in> set pre. \<not> ends_with_symbol r \<and> run_models ata a r \<noteq> []"
    by (auto simp: run_models_has_transition)
  with d(1,2) show ?thesis
    unfolding make_symbol_transition_def symbol_loop_wrong_type by blast
qed

text \<open>
  C4, as the code has it. \<^verbatim>\<open>make_symbol_transition\<close> throws
  \<^verbatim>\<open>WrongTransitionTypeException\<close> only when a given run ends with a symbol step, and
  it does so whenever one does, for every vector of runs that meets the assertion
  of the function (each run that does not end with a symbol step has a start state
  with a transition on the symbol). \<^verbatim>\<open>make_time_transition\<close> throws
  \<^verbatim>\<open>NegativeTimeDeltaException\<close> exactly when the delta is negative, whatever the
  runs are, and, when the delta is not negative, \<^verbatim>\<open>WrongTransitionTypeException\<close>
  exactly when a given run is empty or ends with a time step. Applied to runs that
  alternate between symbol and time steps both operations return alternating runs
  only, so every run produced from the empty run alternates.
\<close>

theorem alternation_errors:
  "(make_symbol_transition ndebug ata runs a = Inl WrongTransitionTypeException \<longrightarrow>
      (\<exists>run \<in> set runs. ends_with_symbol run)) \<and>
   ((\<forall>run \<in> set runs. \<not> ends_with_symbol run \<longrightarrow> has_transition ata a run) \<and>
    (\<exists>run \<in> set runs. ends_with_symbol run) \<longrightarrow>
      make_symbol_transition ndebug ata runs a = Inl WrongTransitionTypeException) \<and>
   (make_time_transition ata runs time = Inl (NegativeTimeDeltaException d) \<longleftrightarrow>
      time < 0 \<and> d = time) \<and>
   (0 \<le> time \<longrightarrow>
      (make_time_transition ata runs time = Inl WrongTransitionTypeException \<longleftrightarrow>
         (\<exists>run \<in> set runs. run = [] \<or> ends_with_time run))) \<and>
   ((\<forall>run \<in> set runs. alternating run) \<longrightarrow>
      (\<forall>out. make_symbol_transition ndebug ata runs a = Inr out \<longrightarrow>
         (\<forall>r \<in> set out. alternating r)) \<and>
      (\<forall>out. make_time_transition ata runs time = Inr out \<longrightarrow>
         (\<forall>r \<in> set out. alternating r))) \<and>
   (produced_runs ndebug ata runs \<longrightarrow> (\<forall>r \<in> set runs. alternating r))"
proof (intro conjI impI allI)
  assume "make_symbol_transition ndebug ata runs a = Inl WrongTransitionTypeException"
  then show "\<exists>run \<in> set runs. ends_with_symbol run"
    by (rule symbol_transition_wrong_type_only_if)
next
  assume "(\<forall>run \<in> set runs. \<not> ends_with_symbol run \<longrightarrow> has_transition ata a run) \<and>
    (\<exists>run \<in> set runs. ends_with_symbol run)"
  then show "make_symbol_transition ndebug ata runs a = Inl WrongTransitionTypeException"
    using symbol_transition_wrong_type_if by blast
next
  show "make_time_transition ata runs time = Inl (NegativeTimeDeltaException d) \<longleftrightarrow>
      time < 0 \<and> d = time"
    by (auto simp: make_time_transition_def time_loop_not_negative)
next
  assume "0 \<le> time"
  then show "make_time_transition ata runs time = Inl WrongTransitionTypeException \<longleftrightarrow>
         (\<exists>run \<in> set runs. run = [] \<or> ends_with_time run)"
    by (auto simp: make_time_transition_def time_loop_wrong_type ends_with_time_def)
next
  fix out
  assume "\<forall>run \<in> set runs. alternating run"
    and "make_symbol_transition ndebug ata runs a = Inr out"
  then show "\<forall>r \<in> set out. alternating r"
    using symbol_transition_alternating by blast
next
  fix out
  assume "\<forall>run \<in> set runs. alternating run"
    and "make_time_transition ata runs time = Inr out"
  then show "\<forall>r \<in> set out. alternating r"
    using time_transition_alternating by blast
next
  assume "produced_runs ndebug ata runs"
  then show "\<forall>r \<in> set runs. alternating r"
    by (rule produced_runs_alternating)
qed

text \<open>
  The looping automaton: a second symbol step, a negative delta, a time step on the
  empty run and a second time step.
\<close>

theorem alternation_errors_witness:
  "make_symbol_transition True ata_loop [[], [(SymbolStep ''a'', [(0, 0)])]] ''a'' =
     Inl WrongTransitionTypeException \<and>
   make_symbol_transition False ata_loop [[], [(SymbolStep ''a'', [(0, 0)])]] ''a'' =
     Inl WrongTransitionTypeException \<and>
   make_time_transition ata_loop [[(SymbolStep ''a'', [(0, 0)])]] (- 1) =
     Inl (NegativeTimeDeltaException (- 1)) \<and>
   make_time_transition ata_loop [[]] 1 = Inl WrongTransitionTypeException \<and>
   make_time_transition ata_loop
     [[(SymbolStep ''a'', [(0, 0)]), (TimeStep 1, [(0, 1)])]] 1 = Inl WrongTransitionTypeException \<and>
   make_time_transition ata_loop [[(SymbolStep ''a'', [(0, 0)])]] 1 =
     Inr [[(SymbolStep ''a'', [(0, 0)]), (TimeStep 1, [(0, 1)])]] \<and>
   produced_runs True ata_loop [[(SymbolStep ''a'', [(0, 0)]), (TimeStep 1, [(0, 1)])]] \<and>
   alternating [(SymbolStep ''a'', [(0::nat, 0)]), (TimeStep 1, [(0, 1)])]"
proof -
  let ?a1 = "[(SymbolStep ''a'', [(0::nat, 0::rat)])]"
  let ?a2 = "[(SymbolStep ''a'', [(0::nat, 0::rat)]), (TimeStep 1, [(0, 1)])]"
  have s1: "make_symbol_transition True ata_loop [[]] ''a'' = Inr [?a1]"
    by (simp add: make_symbol_transition_def ata_loop_def start_states_def
        target_configurations_def)
  have s2: "make_time_transition ata_loop [?a1] 1 = Inr [?a2]"
    by (simp add: make_time_transition_def advance_states_def)
  have p: "produced_runs True ata_loop [?a2]"
    using produced_runs.time [OF produced_runs.symbol [OF produced_runs.initial s1] s2] .
  have h: "(\<forall>run \<in> set [[], ?a1]. \<not> ends_with_symbol run \<longrightarrow> has_transition ata_loop ''a'' run) \<and>
      (\<exists>run \<in> set [[], ?a1]. ends_with_symbol run)"
    by (simp add: ends_with_symbol_def has_transition_def start_states_def delta_def ata_loop_def)
  note A = alternation_errors [of True ata_loop "[[], ?a1]" "''a''" 0 0]
  note A' = alternation_errors [of False ata_loop "[[], ?a1]" "''a''" 0 0]
  note B = alternation_errors [of True ata_loop "[?a1]" "''a''" "- 1" "- 1"]
  note C = alternation_errors [of True ata_loop "[[]]" "''a''" 1 0]
  note D = alternation_errors [of True ata_loop "[?a2]" "''a''" 1 0]
  have w1: "make_symbol_transition True ata_loop [[], ?a1] ''a'' = Inl WrongTransitionTypeException"
    using A [THEN conjunct2, THEN conjunct1, THEN mp, OF h] .
  have w1': "make_symbol_transition False ata_loop [[], ?a1] ''a'' = Inl WrongTransitionTypeException"
    using A' [THEN conjunct2, THEN conjunct1, THEN mp, OF h] .
  have w2: "make_time_transition ata_loop [?a1] (- 1) = Inl (NegativeTimeDeltaException (- 1))"
    by (simp add: B [THEN conjunct2, THEN conjunct2, THEN conjunct1])
  have w3: "make_time_transition ata_loop [[]] 1 = Inl WrongTransitionTypeException"
    using C [THEN conjunct2, THEN conjunct2, THEN conjunct2, THEN conjunct1] by simp
  have w3': "make_time_transition ata_loop [?a2] 1 = Inl WrongTransitionTypeException"
    using D [THEN conjunct2, THEN conjunct2, THEN conjunct2, THEN conjunct1]
    by (simp add: ends_with_time_def)
  have w4: "alternating ?a2"
    using D [THEN conjunct2, THEN conjunct2, THEN conjunct2, THEN conjunct2, THEN conjunct2] p
    by simp
  from w1 w1' w2 w3 w3' s2 p w4 show ?thesis by simp
qed

text \<open>
  A time step on the empty run with a negative delta: the delta is tested first, and
  the exception is the one for the delta, not the one for the transition type.
\<close>

theorem alternation_errors_counterexample:
  "[] \<in> set [[] :: nat Run] \<and>
   make_time_transition ata_loop [[]] (- 1) = Inl (NegativeTimeDeltaException (- 1)) \<and>
   make_time_transition ata_loop [[]] (- 1) \<noteq> Inl WrongTransitionTypeException"
  by (simp add: make_time_transition_def)

section \<open>Minimal models of a disjunction\<close>

lemma models_set_min_subset: "models_set (min_subset M) = minimal_sets (models_set M)"
  unfolding models_set_def min_subset_def minimal_sets_def by auto

lemma models_set_set_insert_range:
  "models_set (set_insert_range M2 M1) = models_set M1 \<union> models_set M2"
  unfolding models_set_def by (auto simp: set_set_insert_range)

text \<open>
  The model returns what the test cases on the minimal models of atomic formulas
  and of conjunctions require, in the order in which a \<^verbatim>\<open>std::set\<close> holds it.
\<close>

lemma minimal_models_test_atomic:
  "get_minimal_models (TrueFormula :: string Formula) 2 = [[]] \<and>
   get_minimal_models (FalseFormula :: string Formula) 2 = [] \<and>
   get_minimal_models (LocationFormula ''s0'') 0 = [[(''s0'', 0)]] \<and>
   get_minimal_models (LocationFormula ''s0'') 1 = [[(''s0'', 1)]] \<and>
   get_minimal_models (ResetClockFormula (LocationFormula ''s0'')) 1 = [[(''s0'', 0)]]"
  by simp

lemma minimal_models_test_conjunction:
  "get_minimal_models (ConjunctionFormula (LocationFormula ''s0'') (LocationFormula ''s1'')) 0 =
     [[(''s0'', 0), (''s1'', 0)]] \<and>
   get_minimal_models (ConjunctionFormula (LocationFormula ''s0'') (LocationFormula ''s1'')) 1 =
     [[(''s0'', 1), (''s1'', 1)]] \<and>
   get_minimal_models (ConjunctionFormula (TrueFormula :: string Formula) FalseFormula) 0 = [] \<and>
   get_minimal_models (ConjunctionFormula (LocationFormula ''s0'') TrueFormula) 0 =
     [[(''s0'', 0)]] \<and>
   get_minimal_models (ConjunctionFormula (LocationFormula ''s0'') TrueFormula) 1 =
     [[(''s0'', 1)]] \<and>
   get_minimal_models (ConjunctionFormula (LocationFormula ''s0'') FalseFormula) 0 = [] \<and>
   get_minimal_models (ConjunctionFormula (LocationFormula ''s0'') FalseFormula) 1 = [] \<and>
   get_minimal_models
     (ConjunctionFormula (LocationFormula ''s0'') (ResetClockFormula (LocationFormula ''s1''))) 1 =
     [[(''s0'', 1), (''s1'', 0)]]"
  by (simp add: pairwise_unions_def min_subset_def set_insert_range_def)

text \<open>
  C3: for all formulas \<open>f1\<close>, \<open>f2\<close> and every clock valuation \<open>v\<close>, the minimal models
  of the disjunction at \<open>v\<close> are the subset-minimal members of the union of the
  minimal models of \<open>f1\<close> and of \<open>f2\<close> at \<open>v\<close>, and no returned model is a strict
  superset of another returned model.
\<close>

theorem disjunction_models_are_minimal:
  "models_set (get_minimal_models (DisjunctionFormula f1 f2) v) =
     minimal_sets (models_set (get_minimal_models f1 v) \<union> models_set (get_minimal_models f2 v)) \<and>
   (\<forall>A \<in> models_set (get_minimal_models (DisjunctionFormula f1 f2) v).
      \<forall>B \<in> models_set (get_minimal_models (DisjunctionFormula f1 f2) v). \<not> B \<subset> A)"
proof -
  have e: "models_set (get_minimal_models (DisjunctionFormula f1 f2) v) =
     minimal_sets (models_set (get_minimal_models f1 v) \<union> models_set (get_minimal_models f2 v))"
    by (simp add: models_set_min_subset models_set_set_insert_range)
  have "\<forall>A \<in> minimal_sets X. \<forall>B \<in> minimal_sets X. \<not> B \<subset> A" for X :: "'b set set"
    unfolding minimal_sets_def by blast
  with e show ?thesis by simp
qed

text \<open>
  The disjunctions of the test file in which one disjunct is \<^verbatim>\<open>true\<close> or \<^verbatim>\<open>false\<close>, and
  two locations.
\<close>

theorem disjunction_models_are_minimal_witness:
  "get_minimal_models (DisjunctionFormula (LocationFormula ''s0'') (LocationFormula ''s1'')) 0 =
     [[(''s0'', 0)], [(''s1'', 0)]] \<and>
   get_minimal_models (DisjunctionFormula (LocationFormula ''s0'') FalseFormula) 1 =
     [[(''s0'', 1)]] \<and>
   models_set (get_minimal_models (DisjunctionFormula (LocationFormula ''s0'') TrueFormula) 0) =
     {{}}"
proof -
  note A = disjunction_models_are_minimal [of "LocationFormula ''s0''" TrueFormula 0]
  have "models_set (get_minimal_models (LocationFormula ''s0'') 0) \<union>
      models_set (get_minimal_models (TrueFormula :: string Formula) 0) = {{(''s0'', 0)}, {}}"
    by (auto simp: models_set_def)
  moreover have "minimal_sets {{(''s0'', 0::rat)}, {}} = {{}}"
    by (auto simp: minimal_sets_def)
  ultimately have 1: "models_set
      (get_minimal_models (DisjunctionFormula (LocationFormula ''s0'') TrueFormula) 0) = {{}}"
    using A [THEN conjunct1] by simp
  have 2: "get_minimal_models
      (DisjunctionFormula (LocationFormula ''s0'') (LocationFormula ''s1'')) 0 =
     [[(''s0'', 0)], [(''s1'', 0)]]"
    by (auto simp: set_insert_range_def min_subset_def)
  have 3: "get_minimal_models (DisjunctionFormula (LocationFormula ''s0'') FalseFormula) 1 =
     [[(''s0'', 1)]]"
    by (simp add: set_insert_range_def min_subset_def)
  from 1 2 3 show ?thesis by simp
qed

section \<open>Timed automata (ta.h)\<close>

subsection \<open>Transitions, paths and the automaton\<close>

text \<open>
  The exceptions of the timed automata: the two that \<^verbatim>\<open>add_transition\<close> throws, with
  the location or the clock they name, \<^verbatim>\<open>std::out_of_range\<close> of \<^verbatim>\<open>std::map::at\<close>, and the
  exception of the product for synchronized actions.
\<close>

datatype 'l ta_error =
    InvalidLocationException 'l
  | InvalidClockException string
  | OutOfRange
  | NotImplementedException

text \<open>
  The clock constraints are a multimap from clock names to constraints, kept as the
  list of its entries in iteration order; the clock resets are a set of names.
\<close>

record 'l Transition =
  ta_source :: 'l
  ta_target :: 'l
  ta_symbol :: Symbol
  ta_clock_constraints :: "(string \<times> ClockConstraint) list"
  ta_clock_resets :: "string list"

text \<open>The transition is enabled: the symbol is its own, and every constraint holds.\<close>

fun all_constraints_satisfied ::
  "(string \<times> ClockConstraint) list \<Rightarrow> (string \<rightharpoonup> Clock) \<Rightarrow> 'l ta_error + bool" where
  "all_constraints_satisfied [] clock_vals = Inr True"
| "all_constraints_satisfied (constraint # constraints) clock_vals =
     (case clock_vals (fst constraint) of
        None \<Rightarrow> Inl OutOfRange
      | Some clock \<Rightarrow>
          if is_satisfied (snd constraint) clock
          then all_constraints_satisfied constraints clock_vals
          else Inr False)"

definition is_enabled ::
  "'l Transition \<Rightarrow> Symbol \<Rightarrow> (string \<rightharpoonup> Clock) \<Rightarrow> 'l ta_error + bool" where
  "is_enabled t symbol clock_vals =
     (if symbol \<noteq> ta_symbol t then Inr False
      else all_constraints_satisfied (ta_clock_constraints t) clock_vals)"

text \<open>
  A path: the sequence of the steps taken, the clocks by name, the current location
  and the time of the last step.
\<close>

record 'l Path =
  ta_sequence :: "(Symbol \<times> Time \<times> 'l) list"
  ta_clock_valuations :: "string \<rightharpoonup> Clock"
  ta_current_location :: 'l
  ta_tick :: Time

text \<open>The constructor: a fresh clock for every given name, placed if the name is new.\<close>

definition Path_init :: "'l \<Rightarrow> string list \<Rightarrow> 'l Path" where
  "Path_init initial_location clocks =
     \<lparr>ta_sequence = [],
      ta_clock_valuations =
        fold (\<lambda>clock m. if clock \<in> dom m then m else m(clock \<mapsto> 0)) clocks Map.empty,
      ta_current_location = initial_location,
      ta_tick = 0\<rparr>"

text \<open>
  Paths are compared by their sequences alone, so a \<^verbatim>\<open>std::set\<close> of paths keeps one
  path per sequence, the one inserted first, in the order of the sequences.
\<close>

fun path_set_insert :: "'l::linorder Path \<Rightarrow> 'l Path list \<Rightarrow> 'l Path list" where
  "path_set_insert p [] = [p]"
| "path_set_insert p (q # qs) =
     (if ta_sequence p < ta_sequence q then p # q # qs
      else if ta_sequence q < ta_sequence p then q # path_set_insert p qs
      else q # qs)"

text \<open>
  The automaton. The alphabet is the first argument of the constructor in the
  version of the class that the product is written for; the class of ta.h has the
  other members.
\<close>

record 'l TimedAutomaton =
  ta_alphabet :: "Symbol list"
  ta_locations :: "'l list"
  ta_initial_location :: 'l
  ta_final_locations :: "'l list"
  ta_clocks :: "string list"
  ta_transitions :: "('l \<times> 'l Transition) list"

definition add_location :: "'l::linorder TimedAutomaton \<Rightarrow> 'l \<Rightarrow> 'l TimedAutomaton" where
  "add_location ta location = ta\<lparr>ta_locations := set_insert location (ta_locations ta)\<rparr>"

definition add_clock :: "'l TimedAutomaton \<Rightarrow> string \<Rightarrow> 'l TimedAutomaton" where
  "add_clock ta name = ta\<lparr>ta_clocks := set_insert name (ta_clocks ta)\<rparr>"

definition add_locations :: "'l::linorder TimedAutomaton \<Rightarrow> 'l list \<Rightarrow> 'l TimedAutomaton" where
  "add_locations ta locations = fold (\<lambda>location ta'. add_location ta' location) locations ta"

definition TimedAutomaton_init ::
  "Symbol list \<Rightarrow> 'l::linorder \<Rightarrow> 'l list \<Rightarrow> 'l TimedAutomaton" where
  "TimedAutomaton_init alphabet initial_location final_locations =
     add_locations
       \<lparr>ta_alphabet = alphabet, ta_locations = [initial_location],
        ta_initial_location = initial_location, ta_final_locations = final_locations,
        ta_clocks = [], ta_transitions = []\<rparr>
       final_locations"

text \<open>
  \<^verbatim>\<open>add_transition\<close> returns the automaton as it is after the call, and the exception
  if one is thrown. The checks come in the order of the source: the source
  location, the target location, the clocks of the constraints, the clocks of the
  resets.
\<close>

definition add_transition ::
  "'l::linorder TimedAutomaton \<Rightarrow> 'l Transition \<Rightarrow> 'l TimedAutomaton \<times> 'l ta_error option" where
  "add_transition ta transition =
     (if ta_source transition \<notin> set (ta_locations ta)
      then (ta, Some (InvalidLocationException (ta_source transition)))
      else if ta_target transition \<notin> set (ta_locations ta)
      then (ta, Some (InvalidLocationException (ta_target transition)))
      else
        case find (\<lambda>clock_name. clock_name \<notin> set (ta_clocks ta))
               (map fst (ta_clock_constraints transition)) of
          Some clock_name \<Rightarrow> (ta, Some (InvalidClockException clock_name))
        | None \<Rightarrow>
            (case find (\<lambda>clock_name. clock_name \<notin> set (ta_clocks ta))
                    (ta_clock_resets transition) of
               Some clock_name \<Rightarrow> (ta, Some (InvalidClockException clock_name))
             | None \<Rightarrow>
                 (ta\<lparr>ta_transitions :=
                       multimap_insert (ta_source transition) transition (ta_transitions ta)\<rparr>,
                  None)))"

text \<open>
  The loop of \<^verbatim>\<open>make_transition\<close> over the transitions that leave the location the
  path was in: the next enabled one is looked for with the clocks of \<open>path\<close> as they
  are by then, and it is \<open>path\<close> itself that is moved to the target, extended,
  reset and inserted.
\<close>

fun enabled_transitions_loop ::
  "'l::linorder Transition list \<Rightarrow> 'l Path \<Rightarrow> Symbol \<Rightarrow> Time \<Rightarrow> 'l Path list
     \<Rightarrow> 'l ta_error + 'l Path list" where
  "enabled_transitions_loop [] path symbol time paths = Inr paths"
| "enabled_transitions_loop (tr # rest) path symbol time paths =
     (case is_enabled tr symbol (ta_clock_valuations path) of
        Inl e \<Rightarrow> Inl e
      | Inr False \<Rightarrow> enabled_transitions_loop rest path symbol time paths
      | Inr True \<Rightarrow>
          let path' = path
                \<lparr>ta_current_location := ta_target tr,
                 ta_sequence := ta_sequence path @ [(symbol, time, ta_target tr)],
                 ta_clock_valuations :=
                   fold (\<lambda>name m. m(name \<mapsto> 0)) (ta_clock_resets tr) (ta_clock_valuations path)\<rparr>
          in enabled_transitions_loop rest path' symbol time (path_set_insert path' paths))"

definition make_transition ::
  "'l::linorder TimedAutomaton \<Rightarrow> 'l Path \<Rightarrow> Symbol \<Rightarrow> Time \<Rightarrow> 'l ta_error + 'l Path list" where
  "make_transition ta path symbol time =
     (if ta_tick path > time then Inr []
      else
        let path' = path
              \<lparr>ta_clock_valuations :=
                 (\<lambda>name. map_option (\<lambda>clock. clock + (time - ta_tick path))
                                    (ta_clock_valuations path name)),
               ta_tick := time\<rparr>
        in enabled_transitions_loop
             (equal_range (ta_transitions ta) (ta_current_location path')) path' symbol time [])"

text \<open>The loops of \<^verbatim>\<open>accepts_word\<close>: over the paths for one timed symbol, and over the word.\<close>

fun step_paths ::
  "'l::linorder TimedAutomaton \<Rightarrow> 'l Path list \<Rightarrow> Symbol \<Rightarrow> Time \<Rightarrow> 'l Path list
     \<Rightarrow> 'l ta_error + 'l Path list" where
  "step_paths ta [] symbol time res_paths = Inr res_paths"
| "step_paths ta (path # paths) symbol time res_paths =
     (case make_transition ta path symbol time of
        Inl e \<Rightarrow> Inl e
      | Inr new_paths \<Rightarrow>
          step_paths ta paths symbol time (fold path_set_insert new_paths res_paths))"

fun read_word ::
  "'l::linorder TimedAutomaton \<Rightarrow> (Symbol \<times> Time) list \<Rightarrow> 'l Path list \<Rightarrow> 'l ta_error + bool" where
  "read_word ta [] paths =
     Inr (\<exists>path \<in> set paths. ta_current_location path \<in> set (ta_final_locations ta))"
| "read_word ta ((symbol, time) # word) paths =
     (case step_paths ta paths symbol time [] of
        Inl e \<Rightarrow> Inl e
      | Inr res_paths \<Rightarrow> if res_paths = [] then Inr False else read_word ta word res_paths)"

definition accepts_word ::
  "'l::linorder TimedAutomaton \<Rightarrow> (Symbol \<times> Time) list \<Rightarrow> 'l ta_error + bool" where
  "accepts_word ta word =
     read_word ta word [Path_init (ta_initial_location ta) (ta_clocks ta)]"

subsection \<open>Well-formed automata\<close>

text \<open>
  A transition mentions only locations and clocks of the automaton; in a
  well-formed automaton so do all stored transitions, each stored under its source
  location, and the initial and the final locations are locations.
\<close>

definition transition_known :: "'l TimedAutomaton \<Rightarrow> 'l Transition \<Rightarrow> bool" where
  "transition_known ta t =
     (ta_source t \<in> set (ta_locations ta) \<and> ta_target t \<in> set (ta_locations ta) \<and>
      (\<forall>constraint \<in> set (ta_clock_constraints t). fst constraint \<in> set (ta_clocks ta)) \<and>
      (\<forall>name \<in> set (ta_clock_resets t). name \<in> set (ta_clocks ta)))"

definition ta_wf :: "'l TimedAutomaton \<Rightarrow> bool" where
  "ta_wf ta =
     (ta_initial_location ta \<in> set (ta_locations ta) \<and>
      set (ta_final_locations ta) \<subseteq> set (ta_locations ta) \<and>
      (\<forall>e \<in> set (ta_transitions ta). fst e = ta_source (snd e) \<and> transition_known ta (snd e)))"

text \<open>The automata that the constructor and the member functions build.\<close>

inductive ta_constructed :: "'l::linorder TimedAutomaton \<Rightarrow> bool" where
  constructor: "ta_constructed (TimedAutomaton_init alphabet initial_location final_locations)"
| location: "ta_constructed ta \<Longrightarrow> ta_constructed (add_location ta location)"
| clock: "ta_constructed ta \<Longrightarrow> ta_constructed (add_clock ta name)"
| locations: "ta_constructed ta \<Longrightarrow> ta_constructed (add_locations ta locations)"
| transition: "ta_constructed ta \<Longrightarrow> ta_constructed (fst (add_transition ta t))"

lemma set_multimap_insert: "set (multimap_insert k v m) = insert (k, v) (set m)"
  by (induction m) auto

lemma transition_known_transitions_update:
  "transition_known (ta\<lparr>ta_transitions := m\<rparr>) t = transition_known ta t"
  by (simp add: transition_known_def)

lemma ta_wf_add_location: "ta_wf ta \<Longrightarrow> ta_wf (add_location ta location)"
  unfolding ta_wf_def add_location_def
  by (auto simp: set_set_insert transition_known_def)

lemma ta_wf_add_clock: "ta_wf ta \<Longrightarrow> ta_wf (add_clock ta name)"
  unfolding ta_wf_def add_clock_def
  by (auto simp: set_set_insert transition_known_def)

lemma ta_wf_add_locations: "ta_wf ta \<Longrightarrow> ta_wf (add_locations ta locations)"
  unfolding add_locations_def
  by (induction locations arbitrary: ta) (simp_all add: ta_wf_add_location)

lemma set_locations_add_locations:
  "set (ta_locations (add_locations ta locations)) = set locations \<union> set (ta_locations ta)"
  unfolding add_locations_def
  by (induction locations arbitrary: ta) (auto simp: add_location_def set_set_insert)

lemma add_locations_other_fields:
  "ta_alphabet (add_locations ta locations) = ta_alphabet ta"
  "ta_initial_location (add_locations ta locations) = ta_initial_location ta"
  "ta_final_locations (add_locations ta locations) = ta_final_locations ta"
  "ta_clocks (add_locations ta locations) = ta_clocks ta"
  "ta_transitions (add_locations ta locations) = ta_transitions ta"
  unfolding add_locations_def
  by (induction locations arbitrary: ta) (simp_all add: add_location_def)

lemma ta_wf_init: "ta_wf (TimedAutomaton_init alphabet initial_location final_locations)"
  unfolding ta_wf_def TimedAutomaton_init_def
  by (auto simp: set_locations_add_locations add_locations_other_fields)

lemma find_Some_member: "find P xs = Some x \<Longrightarrow> x \<in> set xs \<and> P x"
  by (induction xs) (auto split: if_splits)

lemma add_transition_cases:
  "add_transition ta t = (ta', err) \<Longrightarrow>
   (err = None \<and> transition_known ta t \<and>
      ta' = ta\<lparr>ta_transitions := multimap_insert (ta_source t) t (ta_transitions ta)\<rparr>) \<or>
   (ta' = ta \<and> \<not> transition_known ta t \<and>
      ((\<exists>l. err = Some (InvalidLocationException l)) \<and>
         (ta_source t \<notin> set (ta_locations ta) \<or> ta_target t \<notin> set (ta_locations ta)) \<or>
       (\<exists>c. err = Some (InvalidClockException c)) \<and>
         ta_source t \<in> set (ta_locations ta) \<and> ta_target t \<in> set (ta_locations ta)))"
  unfolding add_transition_def transition_known_def
  by (auto split: if_splits option.splits simp: find_None_iff dest!: find_Some_member)

lemma ta_wf_add_transition: "ta_wf ta \<Longrightarrow> ta_wf (fst (add_transition ta t))"
proof -
  assume wf: "ta_wf ta"
  obtain ta' err where r: "add_transition ta t = (ta', err)" by (cases "add_transition ta t")
  from add_transition_cases [OF r] wf have "ta_wf ta'"
    unfolding ta_wf_def
    by (elim disjE conjE) (simp_all add: set_multimap_insert transition_known_transitions_update)
  with r show ?thesis by simp
qed

lemma ta_constructed_wf: "ta_constructed ta \<Longrightarrow> ta_wf ta"
  by (induction rule: ta_constructed.induct)
     (simp_all add: ta_wf_init ta_wf_add_location ta_wf_add_clock ta_wf_add_locations
        ta_wf_add_transition)

text \<open>An automaton with two locations and one clock.\<close>

definition ta_small :: "nat TimedAutomaton" where
  "ta_small = add_clock (TimedAutomaton_init [''a''] 0 [1]) ''x''"

subsection \<open>Validation of added transitions\<close>

text \<open>
  C5, as the code has it: \<^verbatim>\<open>add_transition\<close> throws \<^verbatim>\<open>InvalidLocationException\<close> exactly
  when the source or the target is not a location of the automaton, and
  \<^verbatim>\<open>InvalidClockException\<close> exactly when both are locations and the clock of some
  constraint or some reset clock is not a clock of the automaton (the locations
  are checked first). Whenever it throws, the automaton is left as it was;
  otherwise the transition is inserted under its source location and nothing else
  changes. So in every automaton built by the constructor and the member functions
  each stored transition mentions known locations and clocks only.
\<close>

theorem add_transition_validates:
  "((\<exists>l. snd (add_transition ta t) = Some (InvalidLocationException l)) \<longleftrightarrow>
      ta_source t \<notin> set (ta_locations ta) \<or> ta_target t \<notin> set (ta_locations ta)) \<and>
   ((\<exists>c. snd (add_transition ta t) = Some (InvalidClockException c)) \<longleftrightarrow>
      ta_source t \<in> set (ta_locations ta) \<and> ta_target t \<in> set (ta_locations ta) \<and>
      (\<exists>c \<in> fst ` set (ta_clock_constraints t) \<union> set (ta_clock_resets t).
         c \<notin> set (ta_clocks ta))) \<and>
   (snd (add_transition ta t) \<noteq> None \<longrightarrow> fst (add_transition ta t) = ta) \<and>
   (snd (add_transition ta t) = None \<longrightarrow>
      fst (add_transition ta t) =
        ta\<lparr>ta_transitions := multimap_insert (ta_source t) t (ta_transitions ta)\<rparr> \<and>
      set (ta_transitions (fst (add_transition ta t))) =
        insert (ta_source t, t) (set (ta_transitions ta))) \<and>
   (ta_constructed ta \<longrightarrow>
      (\<forall>e \<in> set (ta_transitions ta). fst e = ta_source (snd e) \<and> transition_known ta (snd e)))"
proof -
  obtain ta' err where r: "add_transition ta t = (ta', err)" by (cases "add_transition ta t")
  note c = add_transition_cases [OF r]
  have known: "transition_known ta t \<longleftrightarrow>
      ta_source t \<in> set (ta_locations ta) \<and> ta_target t \<in> set (ta_locations ta) \<and>
      \<not> (\<exists>c \<in> fst ` set (ta_clock_constraints t) \<union> set (ta_clock_resets t).
         c \<notin> set (ta_clocks ta))"
    unfolding transition_known_def by blast
  have 1: "(\<exists>l. err = Some (InvalidLocationException l)) \<longleftrightarrow>
      ta_source t \<notin> set (ta_locations ta) \<or> ta_target t \<notin> set (ta_locations ta)"
    using c known by auto
  have 2: "(\<exists>c. err = Some (InvalidClockException c)) \<longleftrightarrow>
      ta_source t \<in> set (ta_locations ta) \<and> ta_target t \<in> set (ta_locations ta) \<and>
      (\<exists>c \<in> fst ` set (ta_clock_constraints t) \<union> set (ta_clock_resets t).
         c \<notin> set (ta_clocks ta))"
    using c known by auto
  have 3: "err \<noteq> None \<longrightarrow> ta' = ta"
    using c by auto
  have 4: "err = None \<longrightarrow>
      ta' = ta\<lparr>ta_transitions := multimap_insert (ta_source t) t (ta_transitions ta)\<rparr> \<and>
      set (ta_transitions ta') = insert (ta_source t, t) (set (ta_transitions ta))"
    using c by (auto simp: set_multimap_insert)
  have 5: "ta_constructed ta \<longrightarrow>
      (\<forall>e \<in> set (ta_transitions ta). fst e = ta_source (snd e) \<and> transition_known ta (snd e))"
    using ta_constructed_wf [of ta] by (simp add: ta_wf_def)
  from 1 2 3 4 5 show ?thesis by (simp add: r set_multimap_insert)
qed

lemma ta_small_fields:
  "ta_locations ta_small = [0, 1]" "ta_clocks ta_small = [''x'']" "ta_transitions ta_small = []"
  by (simp_all add: ta_small_def TimedAutomaton_init_def add_locations_def add_location_def
      add_clock_def)

text \<open>A transition that is added, one to an unknown location, one on an unknown clock.\<close>

theorem add_transition_validates_witness:
  "add_transition ta_small
     \<lparr>ta_source = 0, ta_target = 1, ta_symbol = ''a'',
      ta_clock_constraints = [(''x'', Less 1)], ta_clock_resets = [''x'']\<rparr> =
     (ta_small\<lparr>ta_transitions :=
        [(0, \<lparr>ta_source = 0, ta_target = 1, ta_symbol = ''a'',
              ta_clock_constraints = [(''x'', Less 1)], ta_clock_resets = [''x'']\<rparr>)]\<rparr>, None) \<and>
   add_transition ta_small
     \<lparr>ta_source = 0, ta_target = 5, ta_symbol = ''a'',
      ta_clock_constraints = [], ta_clock_resets = []\<rparr> =
     (ta_small, Some (InvalidLocationException 5)) \<and>
   add_transition ta_small
     \<lparr>ta_source = 0, ta_target = 1, ta_symbol = ''a'',
      ta_clock_constraints = [(''y'', Less 1)], ta_clock_resets = []\<rparr> =
     (ta_small, Some (InvalidClockException ''y'')) \<and>
   transition_known ta_small
     \<lparr>ta_source = 0, ta_target = 1, ta_symbol = ''a'',
      ta_clock_constraints = [(''x'', Less 1)], ta_clock_resets = [''x'']\<rparr>"
proof -
  let ?ok = "\<lparr>ta_source = 0::nat, ta_target = 1, ta_symbol = ''a'',
      ta_clock_constraints = [(''x'', Less 1)], ta_clock_resets = [''x'']\<rparr>"
  let ?bad_location = "\<lparr>ta_source = 0::nat, ta_target = 5, ta_symbol = ''a'',
      ta_clock_constraints = [], ta_clock_resets = []\<rparr>"
  let ?bad_clock = "\<lparr>ta_source = 0::nat, ta_target = 1, ta_symbol = ''a'',
      ta_clock_constraints = [(''y'', Less 1)], ta_clock_resets = []\<rparr>"
  have e1: "snd (add_transition ta_small ?ok) = None"
    by (simp add: add_transition_def ta_small_fields)
  have e2: "snd (add_transition ta_small ?bad_location) = Some (InvalidLocationException 5)"
    by (simp add: add_transition_def ta_small_fields)
  have e3: "snd (add_transition ta_small ?bad_clock) = Some (InvalidClockException ''y'')"
    by (simp add: add_transition_def ta_small_fields)
  note A = add_transition_validates [of ta_small ?ok]
  note B = add_transition_validates [of ta_small ?bad_location]
  note C = add_transition_validates [of ta_small ?bad_clock]
  note D = add_transition_validates [of "fst (add_transition ta_small ?ok)" ?ok]
  from A e1 have f1: "fst (add_transition ta_small ?ok) = ta_small\<lparr>ta_transitions := [(0, ?ok)]\<rparr>"
    by (simp add: ta_small_fields)
  from B e2 have f2: "fst (add_transition ta_small ?bad_location) = ta_small" by simp
  from C e3 have f3: "fst (add_transition ta_small ?bad_clock) = ta_small" by simp
  have "ta_constructed ta_small"
    unfolding ta_small_def by (intro ta_constructed.clock ta_constructed.constructor)
  then have "ta_constructed (fst (add_transition ta_small ?ok))"
    by (rule ta_constructed.transition)
  with D have "transition_known (fst (add_transition ta_small ?ok)) ?ok"
    unfolding f1 by simp
  then have k: "transition_known ta_small ?ok"
    unfolding f1 by (simp add: transition_known_transitions_update)
  from e1 e2 e3 f1 f2 f3 k show ?thesis
    by (simp add: prod_eq_iff)
qed

text \<open>
  A transition from an unknown location with a constraint on an unknown clock: the
  exception names the location, not the clock.
\<close>

theorem add_transition_validates_counterexample:
  "''y'' \<in> fst ` set [(''y'', Less 1)] \<and> ''y'' \<notin> set (ta_clocks ta_small) \<and>
   add_transition ta_small
     \<lparr>ta_source = 7, ta_target = 1, ta_symbol = ''a'',
      ta_clock_constraints = [(''y'', Less 1)], ta_clock_resets = []\<rparr> =
     (ta_small, Some (InvalidLocationException 7))"
  by (simp add: add_transition_def ta_small_fields)

subsection \<open>The outcomes of a step\<close>

text \<open>
  For comparison, the outcomes of a step as they are described: from the path with
  its clocks advanced to the given time, one path for every transition that leaves
  the current location and is enabled there, moved to the target of that
  transition, extended by that step and with the clocks of that transition reset.
\<close>

definition enabled_outcomes ::
  "'l TimedAutomaton \<Rightarrow> 'l Path \<Rightarrow> Symbol \<Rightarrow> Time \<Rightarrow> 'l Path list" where
  "enabled_outcomes ta path a time =
     (let advanced = path
            \<lparr>ta_clock_valuations :=
               (\<lambda>name. map_option (\<lambda>clock. clock + (time - ta_tick path))
                                  (ta_clock_valuations path name)),
             ta_tick := time\<rparr>
      in map (\<lambda>tr. advanced
                 \<lparr>ta_current_location := ta_target tr,
                  ta_sequence := ta_sequence advanced @ [(a, time, ta_target tr)],
                  ta_clock_valuations :=
                    fold (\<lambda>name m. m(name \<mapsto> 0)) (ta_clock_resets tr)
                      (ta_clock_valuations advanced)\<rparr>)
           (filter (\<lambda>tr. is_enabled tr a (ta_clock_valuations advanced) = (Inr True :: 'l ta_error + bool))
              (equal_range (ta_transitions ta) (ta_current_location path))))"

text \<open>
  Two automata with a choice on \<^verbatim>\<open>a\<close> in location 0: one transition to location 1
  that resets the clock \<^verbatim>\<open>x\<close>, and one to location 2, in the first automaton under
  the constraint \<open>x \<ge> 1\<close>, in the second without a constraint.
\<close>

definition ta_choice_base :: "nat TimedAutomaton" where
  "ta_choice_base =
     fst (add_transition
       (add_clock (TimedAutomaton_init [''a''] 0 [1, 2]) ''x'')
       \<lparr>ta_source = 0, ta_target = 1, ta_symbol = ''a'',
        ta_clock_constraints = [], ta_clock_resets = [''x'']\<rparr>)"

definition ta_choice_guarded :: "nat TimedAutomaton" where
  "ta_choice_guarded =
     fst (add_transition ta_choice_base
       \<lparr>ta_source = 0, ta_target = 2, ta_symbol = ''a'',
        ta_clock_constraints = [(''x'', GreaterEqual 1)], ta_clock_resets = []\<rparr>)"

definition ta_choice_free :: "nat TimedAutomaton" where
  "ta_choice_free =
     fst (add_transition ta_choice_base
       \<lparr>ta_source = 0, ta_target = 2, ta_symbol = ''a'',
        ta_clock_constraints = [], ta_clock_resets = []\<rparr>)"

text \<open>What is compared of a path: its location, its sequence and its clock \<^verbatim>\<open>x\<close>.\<close>

definition path_summary :: "'l Path \<Rightarrow> 'l \<times> (Symbol \<times> Time \<times> 'l) list \<times> Clock option" where
  "path_summary p = (ta_current_location p, ta_sequence p, ta_clock_valuations p ''x'')"

lemma ta_choice_base_eq:
  "ta_choice_base =
     \<lparr>ta_alphabet = [''a''], ta_locations = [0, 1, 2], ta_initial_location = 0,
      ta_final_locations = [1, 2], ta_clocks = [''x''],
      ta_transitions =
        [(0, \<lparr>ta_source = 0, ta_target = 1, ta_symbol = ''a'',
              ta_clock_constraints = [], ta_clock_resets = [''x'']\<rparr>)]\<rparr>"
  by (simp add: ta_choice_base_def add_transition_def TimedAutomaton_init_def add_locations_def
      add_location_def add_clock_def)

lemma ta_choice_guarded_transitions:
  "ta_transitions ta_choice_guarded =
     [(0, \<lparr>ta_source = 0, ta_target = 1, ta_symbol = ''a'',
          ta_clock_constraints = [], ta_clock_resets = [''x'']\<rparr>),
      (0, \<lparr>ta_source = 0, ta_target = 2, ta_symbol = ''a'',
          ta_clock_constraints = [(''x'', GreaterEqual 1)], ta_clock_resets = []\<rparr>)]"
  by (simp add: ta_choice_guarded_def ta_choice_base_eq add_transition_def)

lemma ta_choice_free_transitions:
  "ta_transitions ta_choice_free =
     [(0, \<lparr>ta_source = 0, ta_target = 1, ta_symbol = ''a'',
          ta_clock_constraints = [], ta_clock_resets = [''x'']\<rparr>),
      (0, \<lparr>ta_source = 0, ta_target = 2, ta_symbol = ''a'',
          ta_clock_constraints = [], ta_clock_resets = []\<rparr>)]"
  by (simp add: ta_choice_free_def ta_choice_base_eq add_transition_def)

text \<open>
  C2 reads: the step returns one path for every transition from the current
  location that is enabled at the advanced valuation, each moved to the target of
  its transition and with the clocks of that transition reset, all starting from
  the same state before the transition. The loop of \<^verbatim>\<open>make_transition\<close> works on the
  one path it was given instead. From location 0 with \<open>x = 0\<close>, on \<^verbatim>\<open>a\<close> at time 1:
  with the constrained choice the transition to location 2 is enabled at \<open>x = 1\<close>,
  but it is looked at after the first transition has reset \<^verbatim>\<open>x\<close>, so only one path
  is returned; with the free choice the second path carries both steps in its
  sequence and has \<^verbatim>\<open>x\<close> reset, though its transition resets nothing.
\<close>

theorem make_transition_shares_the_path:
  "map_sum id (map path_summary)
     (make_transition ta_choice_guarded (Path_init 0 [''x'']) ''a'' 1) =
     Inr [(1, [(''a'', 1, 1)], Some 0)] \<and>
   map path_summary (enabled_outcomes ta_choice_guarded (Path_init 0 [''x'']) ''a'' 1) =
     [(1, [(''a'', 1, 1)], Some 0), (2, [(''a'', 1, 2)], Some 1)] \<and>
   map_sum id (map path_summary)
     (make_transition ta_choice_free (Path_init 0 [''x'']) ''a'' 1) =
     Inr [(1, [(''a'', 1, 1)], Some 0), (2, [(''a'', 1, 1), (''a'', 1, 2)], Some 0)] \<and>
   map path_summary (enabled_outcomes ta_choice_free (Path_init 0 [''x'']) ''a'' 1) =
     [(1, [(''a'', 1, 1)], Some 0), (2, [(''a'', 1, 2)], Some 1)]"
  by (simp add: make_transition_def enabled_outcomes_def ta_choice_guarded_transitions
      ta_choice_free_transitions equal_range_def
      Path_init_def is_enabled_def path_summary_def Let_def)

subsection \<open>Time stamps that decrease\<close>

text \<open>Some time stamp of the list is smaller than the one before it.\<close>

fun decreases :: "Time list \<Rightarrow> bool" where
  "decreases (t # t' # ts) = (t' < t \<or> decreases (t' # ts))"
| "decreases ts = False"

text \<open>A path of the automaton at a given time: it has all clocks, and its tick is that time.\<close>

definition path_at :: "'l TimedAutomaton \<Rightarrow> Time \<Rightarrow> 'l Path \<Rightarrow> bool" where
  "path_at ta time p = (ta_tick p = time \<and> set (ta_clocks ta) \<subseteq> dom (ta_clock_valuations p))"

lemma all_constraints_satisfied_no_error:
  "(\<forall>constraint \<in> set cs. fst constraint \<in> dom m) \<Longrightarrow>
   \<exists>b. all_constraints_satisfied cs m = Inr b"
  by (induction cs) auto

lemma is_enabled_no_error:
  "(\<forall>constraint \<in> set (ta_clock_constraints t). fst constraint \<in> dom m) \<Longrightarrow>
   \<exists>b. is_enabled t a m = Inr b"
  unfolding is_enabled_def by (auto simp: all_constraints_satisfied_no_error)

lemma set_path_set_insert: "set (path_set_insert p ps) \<subseteq> insert p (set ps)"
  by (induction ps) auto

lemma set_fold_path_set_insert: "set (fold path_set_insert new ps) \<subseteq> set new \<union> set ps"
proof (induction new arbitrary: ps)
  case Nil
  show ?case by simp
next
  case (Cons p new)
  from Cons.IH [of "path_set_insert p ps"] set_path_set_insert [of p ps]
  show ?case by auto
qed

lemma dom_fold_reset:
  "dom (fold (\<lambda>name m'. m'(name \<mapsto> 0::Clock)) names m) = set names \<union> dom m"
  by (induction names arbitrary: m) auto

lemma enabled_transitions_loop_paths:
  assumes "\<forall>tr \<in> set trs. transition_known ta tr"
    and "path_at ta time path"
    and "\<forall>q \<in> set paths. path_at ta time q"
  shows "\<exists>out. enabled_transitions_loop trs path a time paths = Inr out \<and>
           (\<forall>q \<in> set out. path_at ta time q)"
  using assms
proof (induction trs arbitrary: path paths)
  case Nil
  then show ?case by simp
next
  case (Cons tr rest)
  let ?path' = "path
        \<lparr>ta_current_location := ta_target tr,
         ta_sequence := ta_sequence path @ [(a, time, ta_target tr)],
         ta_clock_valuations :=
           fold (\<lambda>name m. m(name \<mapsto> 0)) (ta_clock_resets tr) (ta_clock_valuations path)\<rparr>"
  from Cons.prems(1) have known: "transition_known ta tr"
    and rest: "\<forall>tr \<in> set rest. transition_known ta tr"
    by simp_all
  from known Cons.prems(2)
  have "\<forall>constraint \<in> set (ta_clock_constraints tr). fst constraint \<in> dom (ta_clock_valuations path)"
    unfolding transition_known_def path_at_def by blast
  from is_enabled_no_error [OF this]
  obtain b where b: "is_enabled tr a (ta_clock_valuations path) = (Inr b :: 'a ta_error + bool)"
    by blast
  show ?case
  proof (cases b)
    case False
    with b Cons.IH [OF rest Cons.prems(2) Cons.prems(3)] show ?thesis by simp
  next
    case True
    from Cons.prems(2) have p': "path_at ta time ?path'"
      unfolding path_at_def by (auto simp: dom_fold_reset)
    with Cons.prems(3) set_path_set_insert [of ?path' paths]
    have "\<forall>q \<in> set (path_set_insert ?path' paths). path_at ta time q"
      by auto
    from Cons.IH [OF rest p' this] b True show ?thesis
      by (simp add: Let_def)
  qed
qed

lemma equal_range_known:
  "ta_wf ta \<Longrightarrow> \<forall>tr \<in> set (equal_range (ta_transitions ta) l). transition_known ta tr"
  unfolding ta_wf_def equal_range_def by auto

lemma make_transition_late: "ta_tick path > time \<Longrightarrow> make_transition ta path a time = Inr []"
  by (simp add: make_transition_def)

lemma make_transition_paths:
  assumes "ta_wf ta" and "path_at ta t0 path"
  shows "\<exists>out. make_transition ta path a time = Inr out \<and> (\<forall>q \<in> set out. path_at ta time q)"
proof (cases "ta_tick path > time")
  case True
  then show ?thesis by (simp add: make_transition_late)
next
  case False
  let ?path' = "path
        \<lparr>ta_clock_valuations :=
           (\<lambda>name. map_option (\<lambda>clock. clock + (time - ta_tick path))
                              (ta_clock_valuations path name)),
         ta_tick := time\<rparr>"
  from assms(2) have "path_at ta time ?path'"
    unfolding path_at_def by (auto simp: dom_def)
  from enabled_transitions_loop_paths
    [where paths = "[]" and a = a, OF equal_range_known [OF assms(1)] this]
  show ?thesis using False
    by (simp add: make_transition_def Let_def)
qed

lemma step_paths_result:
  assumes "ta_wf ta"
    and "\<forall>p \<in> set paths. path_at ta t0 p"
    and "\<forall>q \<in> set res. path_at ta time q"
  shows "\<exists>out. step_paths ta paths a time res = Inr out \<and>
           (\<forall>q \<in> set out. path_at ta time q) \<and> (time < t0 \<longrightarrow> out = res)"
  using assms(2,3)
proof (induction paths arbitrary: res)
  case Nil
  then show ?case by simp
next
  case (Cons p paths)
  from Cons.prems(1) have p: "path_at ta t0 p" and ps: "\<forall>p \<in> set paths. path_at ta t0 p"
    by simp_all
  from make_transition_paths [where a = a and time = time, OF assms(1) p]
  obtain new where new: "make_transition ta p a time = Inr new"
    "\<forall>q \<in> set new. path_at ta time q"
    by blast
  have late: "time < t0 \<longrightarrow> new = []"
    using new(1) p make_transition_late [of time p ta a] by (auto simp: path_at_def)
  from new(2) Cons.prems(2) set_fold_path_set_insert [of new res]
  have "\<forall>q \<in> set (fold path_set_insert new res). path_at ta time q"
    by auto
  from Cons.IH [OF ps this] new(1) late show ?case
    by auto
qed

lemma read_word_decreasing:
  assumes "ta_wf ta"
  shows "\<forall>p \<in> set paths. path_at ta t0 p \<Longrightarrow> decreases (t0 # map snd word) \<Longrightarrow>
         read_word ta word paths = Inr False"
proof (induction word arbitrary: paths t0)
  case Nil
  then show ?case by simp
next
  case (Cons st word)
  obtain a time where st: "st = (a, time)" by (cases st)
  from step_paths_result [where res = "[]" and time = time and a = a, OF assms Cons.prems(1)]
  obtain out where out: "step_paths ta paths a time [] = Inr out"
    "\<forall>q \<in> set out. path_at ta time q" "time < t0 \<longrightarrow> out = []"
    by auto
  show ?case
  proof (cases "out = []")
    case True
    with out(1) st show ?thesis by simp
  next
    case False
    with out(3) Cons.prems(2) st have "decreases (time # map snd word)"
      by auto
    from Cons.IH [OF out(2) this] out(1) False st show ?thesis
      by simp
  qed
qed

lemma decreases_Cons: "decreases ts \<Longrightarrow> decreases (t # ts)"
  by (cases ts) auto

lemma dom_Path_init: "dom (ta_clock_valuations (Path_init l clocks)) = set clocks"
proof -
  have "dom (fold (\<lambda>clock m. if clock \<in> dom m then m else m(clock \<mapsto> 0::Clock)) clocks m) =
      set clocks \<union> dom m" for m
    by (induction clocks arbitrary: m) auto
  then show ?thesis by (simp add: Path_init_def)
qed

text \<open>
  C10: for every path and every time that is smaller than the tick of the path,
  \<^verbatim>\<open>make_transition\<close> returns the empty set of paths and raises nothing; and for
  every well-formed automaton \<^verbatim>\<open>accepts_word\<close> returns false, and raises nothing,
  on every timed word in which some time stamp is smaller than the one before it.
\<close>

theorem earlier_time_gives_no_path:
  "(ta_tick path > time \<longrightarrow> make_transition ta path a time = Inr []) \<and>
   (ta_wf ta \<and> decreases (map snd word) \<longrightarrow> accepts_word ta word = Inr False)"
proof (intro conjI impI)
  assume "ta_tick path > time"
  then show "make_transition ta path a time = Inr []"
    by (rule make_transition_late)
next
  assume a: "ta_wf ta \<and> decreases (map snd word)"
  have "\<forall>p \<in> set [Path_init (ta_initial_location ta) (ta_clocks ta)]. path_at ta 0 p"
    by (simp add: path_at_def dom_Path_init) (simp add: Path_init_def)
  moreover from a have "decreases (0 # map snd word)"
    by (simp add: decreases_Cons)
  ultimately show "accepts_word ta word = Inr False"
    unfolding accepts_word_def using a read_word_decreasing by blast
qed

text \<open>The small automaton with a loop on \<^verbatim>\<open>a\<close> in its initial location.\<close>

definition ta_ticking :: "nat TimedAutomaton" where
  "ta_ticking =
     fst (add_transition ta_small
       \<lparr>ta_source = 0, ta_target = 0, ta_symbol = ''a'',
        ta_clock_constraints = [], ta_clock_resets = []\<rparr>)"

text \<open>The word \<^verbatim>\<open>(a, 2) (a, 1)\<close> on the looping automaton.\<close>

theorem earlier_time_gives_no_path_witness:
  "ta_wf ta_ticking \<and> decreases (map snd [(''a'', 2), (''a'', 1)]) \<and>
   make_transition ta_ticking (Path_init 0 [''x'']\<lparr>ta_tick := 2\<rparr>) ''a'' 1 = Inr [] \<and>
   accepts_word ta_ticking [(''a'', 2), (''a'', 1)] = Inr False"
proof -
  have "ta_constructed ta_ticking"
    unfolding ta_ticking_def ta_small_def
    by (intro ta_constructed.transition ta_constructed.clock ta_constructed.constructor)
  then have wf: "ta_wf ta_ticking" by (rule ta_constructed_wf)
  have d: "decreases (map snd [(''a'', 2), (''a'', 1)])" by simp
  from wf d
    earlier_time_gives_no_path
      [of 1 "Path_init 0 [''x'']\<lparr>ta_tick := 2\<rparr>" ta_ticking "''a''" "[(''a'', 2), (''a'', 1)]"]
  show ?thesis by simp
qed

section \<open>The product of two timed automata (ta_product.hpp)\<close>

text \<open>
  The transitions of the product: one component takes a transition of its own, the
  other stays in its location.
\<close>

definition left_move :: "'a \<Rightarrow> 'a Transition \<Rightarrow> 'b \<Rightarrow> ('a \<times> 'b) Transition" where
  "left_move location transition l2 =
     \<lparr>ta_source = (location, l2), ta_target = (ta_target transition, l2),
      ta_symbol = ta_symbol transition,
      ta_clock_constraints = ta_clock_constraints transition,
      ta_clock_resets = ta_clock_resets transition\<rparr>"

definition right_move :: "'b \<Rightarrow> 'b Transition \<Rightarrow> 'a \<Rightarrow> ('a \<times> 'b) Transition" where
  "right_move location transition l1 =
     \<lparr>ta_source = (l1, location), ta_target = (l1, ta_target transition),
      ta_symbol = ta_symbol transition,
      ta_clock_constraints = ta_clock_constraints transition,
      ta_clock_resets = ta_clock_resets transition\<rparr>"

text \<open>
  The transitions in the order in which the two nested loops pass them to
  \<^verbatim>\<open>add_transition\<close>.
\<close>

definition left_moves ::
  "'a TimedAutomaton \<Rightarrow> 'b TimedAutomaton \<Rightarrow> ('a \<times> 'b) Transition list" where
  "left_moves ta1 ta2 =
     concat (map (\<lambda>e. map (\<lambda>l2. left_move (fst e) (snd e) l2) (ta_locations ta2))
                 (ta_transitions ta1))"

definition right_moves ::
  "'a TimedAutomaton \<Rightarrow> 'b TimedAutomaton \<Rightarrow> ('a \<times> 'b) Transition list" where
  "right_moves ta1 ta2 =
     concat (map (\<lambda>e. map (\<lambda>l1. right_move (fst e) (snd e) l1) (ta_locations ta1))
                 (ta_transitions ta2))"

text \<open>Adding transitions one after the other; the first exception ends it.\<close>

fun add_transitions ::
  "'l::linorder TimedAutomaton \<Rightarrow> 'l Transition list \<Rightarrow> 'l ta_error + 'l TimedAutomaton" where
  "add_transitions res [] = Inr res"
| "add_transitions res (t # ts) =
     (case add_transition res t of
        (res', Some e) \<Rightarrow> Inl e
      | (res', None) \<Rightarrow> add_transitions res' ts)"

text \<open>All pairs of a location of the first and a location of the second list, as a set.\<close>

definition location_pairs :: "'a::linorder list \<Rightarrow> 'b::linorder list \<Rightarrow> ('a \<times> 'b) list" where
  "location_pairs ls1 ls2 =
     fold (\<lambda>l1 acc. fold (\<lambda>l2 acc'. set_insert (l1, l2) acc') ls2 acc) ls1 []"

definition get_product ::
  "'a::linorder TimedAutomaton \<Rightarrow> 'b::linorder TimedAutomaton \<Rightarrow> Symbol list
     \<Rightarrow> ('a \<times> 'b) ta_error + ('a \<times> 'b) TimedAutomaton" where
  "get_product ta1 ta2 synchronized_actions =
     (if synchronized_actions \<noteq> [] then Inl NotImplementedException
      else
        let final_locations = location_pairs (ta_final_locations ta1) (ta_final_locations ta2);
            res = TimedAutomaton_init
                    (fold set_insert (ta_alphabet ta1 @ ta_alphabet ta2) [])
                    (ta_initial_location ta1, ta_initial_location ta2)
                    final_locations;
            res = fold (\<lambda>l1 r. fold (\<lambda>l2 r'. add_location r' (l1, l2)) (ta_locations ta2) r)
                    (ta_locations ta1) res;
            res = fold (\<lambda>clock r. add_clock r clock) (ta_clocks ta1) res;
            res = fold (\<lambda>clock r. add_clock r clock) (ta_clocks ta2) res
        in case add_transitions res (left_moves ta1 ta2) of
             Inl e \<Rightarrow> Inl e
           | Inr res' \<Rightarrow> add_transitions res' (right_moves ta1 ta2))"

text \<open>The product as it is before its transitions are added.\<close>

definition product_frame ::
  "'a::linorder TimedAutomaton \<Rightarrow> 'b::linorder TimedAutomaton \<Rightarrow> ('a \<times> 'b) TimedAutomaton" where
  "product_frame ta1 ta2 =
     fold (\<lambda>clock r. add_clock r clock) (ta_clocks ta2)
       (fold (\<lambda>clock r. add_clock r clock) (ta_clocks ta1)
         (fold (\<lambda>l1 r. fold (\<lambda>l2 r'. add_location r' (l1, l2)) (ta_locations ta2) r)
            (ta_locations ta1)
            (TimedAutomaton_init
               (fold set_insert (ta_alphabet ta1 @ ta_alphabet ta2) [])
               (ta_initial_location ta1, ta_initial_location ta2)
               (location_pairs (ta_final_locations ta1) (ta_final_locations ta2)))))"

lemma get_product_frame:
  "get_product ta1 ta2 synchronized_actions =
     (if synchronized_actions \<noteq> [] then Inl NotImplementedException
      else case add_transitions (product_frame ta1 ta2) (left_moves ta1 ta2) of
             Inl e \<Rightarrow> Inl e
           | Inr res' \<Rightarrow> add_transitions res' (right_moves ta1 ta2))"
  by (simp add: get_product_def product_frame_def Let_def)

lemma set_location_pairs: "set (location_pairs ls1 ls2) = set ls1 \<times> set ls2"
proof -
  have inner: "set (fold (\<lambda>l2 acc'. set_insert (l1, l2) acc') ls2 acc) = Pair l1 ` set ls2 \<union> set acc"
    for l1 :: 'a and acc
    by (rule set_fold_set_insert)
  have "set (fold (\<lambda>l1 acc. fold (\<lambda>l2 acc'. set_insert (l1, l2) acc') ls2 acc) ls1 acc) =
      set ls1 \<times> set ls2 \<union> set acc" for acc
    by (induction ls1 arbitrary: acc) (auto simp: inner)
  then show ?thesis by (simp add: location_pairs_def)
qed

lemma fold_add_clock:
  "fold (\<lambda>clock r. add_clock r clock) cs ta = ta\<lparr>ta_clocks := fold set_insert cs (ta_clocks ta)\<rparr>"
  by (induction cs arbitrary: ta) (simp_all add: add_clock_def)

lemma fold_add_location_pairs:
  "fold (\<lambda>l1 r. fold (\<lambda>l2 r'. add_location r' (l1, l2)) ls2 r) ls1 ta =
     ta\<lparr>ta_locations :=
          fold (\<lambda>l1 acc. fold (\<lambda>l2 acc'. set_insert (l1, l2) acc') ls2 acc) ls1 (ta_locations ta)\<rparr>"
proof -
  have inner: "fold (\<lambda>l2 r'. add_location r' (l1, l2)) ls2 r =
      r\<lparr>ta_locations := fold (\<lambda>l2 acc'. set_insert (l1, l2) acc') ls2 (ta_locations r)\<rparr>"
    for l1 :: 'a and r :: "('a \<times> 'b) TimedAutomaton"
    by (induction ls2 arbitrary: r) (simp_all add: add_location_def)
  show ?thesis
    by (induction ls1 arbitrary: ta) (simp_all add: inner)
qed

lemma set_fold_pairs:
  "set (fold (\<lambda>l1 acc. fold (\<lambda>l2 acc'. set_insert (l1, l2) acc') ls2 acc) ls1 acc) =
     set ls1 \<times> set ls2 \<union> set acc"
proof -
  have inner: "set (fold (\<lambda>l2 acc'. set_insert (l1, l2) acc') ls2 acc) = Pair l1 ` set ls2 \<union> set acc"
    for l1 :: 'a and acc
    by (rule set_fold_set_insert)
  show ?thesis
    by (induction ls1 arbitrary: acc) (auto simp: inner)
qed

lemma product_frame_fields:
  "ta_alphabet (product_frame ta1 ta2) = fold set_insert (ta_alphabet ta1 @ ta_alphabet ta2) []"
  "ta_initial_location (product_frame ta1 ta2) = (ta_initial_location ta1, ta_initial_location ta2)"
  "ta_final_locations (product_frame ta1 ta2) =
     location_pairs (ta_final_locations ta1) (ta_final_locations ta2)"
  "ta_transitions (product_frame ta1 ta2) = []"
  "ta_clocks (product_frame ta1 ta2) = fold set_insert (ta_clocks ta2) (fold set_insert (ta_clocks ta1) [])"
  by (simp_all add: product_frame_def fold_add_clock fold_add_location_pairs TimedAutomaton_init_def
      add_locations_other_fields)

lemma product_frame_locations:
  "set (ta_locations (product_frame ta1 ta2)) =
     set (ta_locations ta1) \<times> set (ta_locations ta2) \<union>
     set (ta_final_locations ta1) \<times> set (ta_final_locations ta2) \<union>
     {(ta_initial_location ta1, ta_initial_location ta2)}"
  by (simp add: product_frame_def fold_add_clock fold_add_location_pairs set_fold_pairs
      TimedAutomaton_init_def set_locations_add_locations set_location_pairs Un_commute Un_left_commute)

lemma product_frame_clocks:
  "set (ta_clocks (product_frame ta1 ta2)) = set (ta_clocks ta1) \<union> set (ta_clocks ta2)"
  using set_fold_set_insert [of "\<lambda>x. x"] by (auto simp: product_frame_fields)

lemma add_transition_known:
  "transition_known ta t \<Longrightarrow>
   add_transition ta t =
     (ta\<lparr>ta_transitions := multimap_insert (ta_source t) t (ta_transitions ta)\<rparr>, None)"
  unfolding add_transition_def transition_known_def
  by (auto simp: find_None_iff split: option.splits)

lemma add_transitions_known:
  "(\<forall>t \<in> set ts. transition_known res t) \<Longrightarrow>
   add_transitions res ts =
     Inr (res\<lparr>ta_transitions :=
               fold (\<lambda>t m. multimap_insert (ta_source t) t m) ts (ta_transitions res)\<rparr>)"
proof (induction ts arbitrary: res)
  case Nil
  show ?case by simp
next
  case (Cons t ts)
  let ?res' = "res\<lparr>ta_transitions := multimap_insert (ta_source t) t (ta_transitions res)\<rparr>"
  from Cons.prems have "add_transition res t = (?res', None)"
    by (simp add: add_transition_known)
  moreover from Cons.prems have "\<forall>t \<in> set ts. transition_known ?res' t"
    by (simp add: transition_known_transitions_update)
  ultimately show ?case using Cons.IH [of ?res'] by simp
qed

lemma add_transitions_not_implemented:
  "add_transitions res ts \<noteq> Inl NotImplementedException"
  by (induction ts arbitrary: res)
     (auto simp: add_transition_def split: prod.splits option.splits if_splits)

lemma set_fold_multimap_insert:
  "set (fold (\<lambda>t m. multimap_insert (f t) t m) ts m0) = (\<lambda>t. (f t, t)) ` set ts \<union> set m0"
  by (induction ts arbitrary: m0) (auto simp: set_multimap_insert)

lemma left_moves_known:
  assumes "ta_wf ta1"
  shows "\<forall>t \<in> set (left_moves ta1 ta2). transition_known (product_frame ta1 ta2) t"
proof
  fix t assume "t \<in> set (left_moves ta1 ta2)"
  then obtain e l2 where e: "e \<in> set (ta_transitions ta1)" "l2 \<in> set (ta_locations ta2)"
    "t = left_move (fst e) (snd e) l2"
    unfolding left_moves_def by auto
  from assms e(1) have "fst e = ta_source (snd e)" "transition_known ta1 (snd e)"
    unfolding ta_wf_def by auto
  with e(2,3) show "transition_known (product_frame ta1 ta2) t"
    unfolding transition_known_def
    by (simp add: left_move_def product_frame_locations product_frame_clocks)
qed

lemma right_moves_known:
  assumes "ta_wf ta2"
  shows "\<forall>t \<in> set (right_moves ta1 ta2). transition_known (product_frame ta1 ta2) t"
proof
  fix t assume "t \<in> set (right_moves ta1 ta2)"
  then obtain e l1 where e: "e \<in> set (ta_transitions ta2)" "l1 \<in> set (ta_locations ta1)"
    "t = right_move (fst e) (snd e) l1"
    unfolding right_moves_def by auto
  from assms e(1) have "fst e = ta_source (snd e)" "transition_known ta2 (snd e)"
    unfolding ta_wf_def by auto
  with e(2,3) show "transition_known (product_frame ta1 ta2) t"
    unfolding transition_known_def
    by (simp add: right_move_def product_frame_locations product_frame_clocks)
qed

text \<open>The product of two well-formed automata, written out.\<close>

lemma get_product_wf:
  assumes "ta_wf ta1" and "ta_wf ta2"
  shows "get_product ta1 ta2 [] =
     Inr ((product_frame ta1 ta2)
            \<lparr>ta_transitions :=
               fold (\<lambda>t m. multimap_insert (ta_source t) t m)
                 (left_moves ta1 ta2 @ right_moves ta1 ta2) []\<rparr>)"
proof -
  let ?frame = "product_frame ta1 ta2"
  let ?res' = "?frame\<lparr>ta_transitions :=
      fold (\<lambda>t m. multimap_insert (ta_source t) t m) (left_moves ta1 ta2) (ta_transitions ?frame)\<rparr>"
  have l: "add_transitions ?frame (left_moves ta1 ta2) = Inr ?res'"
    by (rule add_transitions_known [OF left_moves_known [OF assms(1)]])
  from right_moves_known [OF assms(2)]
  have "\<forall>t \<in> set (right_moves ta1 ta2). transition_known ?res' t"
    by (simp add: transition_known_transitions_update)
  from add_transitions_known [OF this] l show ?thesis
    by (simp add: get_product_frame product_frame_fields)
qed

lemma product_frame_locations_wf:
  "ta_wf ta1 \<Longrightarrow> ta_wf ta2 \<Longrightarrow>
   set (ta_locations (product_frame ta1 ta2)) = set (ta_locations ta1) \<times> set (ta_locations ta2)"
  unfolding product_frame_locations ta_wf_def by auto

subsection \<open>Synchronized actions and the shape of the product\<close>

text \<open>
  C6: \<^verbatim>\<open>get_product\<close> throws \<^verbatim>\<open>NotImplementedException\<close> exactly when the set of
  synchronized actions is not empty. When it is empty, the product of two
  well-formed automata is returned: its locations are the pairs of component
  locations, its alphabet and its clocks are the unions of those of the components,
  its initial location is the pair of the initial locations, its final locations
  are the pairs of final locations, and its transitions are the interleavings: for
  every transition of the first automaton and every location \<open>l2\<close> of the second,
  the transition with the same symbol, constraints and resets that takes the first
  component from its source to its target and leaves the second in \<open>l2\<close>; and the
  same with the roles exchanged.
\<close>

theorem get_product_interleaves:
  "(get_product ta1 ta2 synchronized_actions = Inl NotImplementedException \<longleftrightarrow>
      synchronized_actions \<noteq> []) \<and>
   (ta_wf ta1 \<and> ta_wf ta2 \<longrightarrow>
      (\<exists>res. get_product ta1 ta2 [] = Inr res \<and>
         set (ta_locations res) = set (ta_locations ta1) \<times> set (ta_locations ta2) \<and>
         set (ta_alphabet res) = set (ta_alphabet ta1) \<union> set (ta_alphabet ta2) \<and>
         set (ta_clocks res) = set (ta_clocks ta1) \<union> set (ta_clocks ta2) \<and>
         ta_initial_location res = (ta_initial_location ta1, ta_initial_location ta2) \<and>
         set (ta_final_locations res) =
           set (ta_final_locations ta1) \<times> set (ta_final_locations ta2) \<and>
         set (ta_transitions res) =
           (\<lambda>(e, l2).
              ((ta_source (snd e), l2),
               \<lparr>ta_source = (ta_source (snd e), l2), ta_target = (ta_target (snd e), l2),
                ta_symbol = ta_symbol (snd e),
                ta_clock_constraints = ta_clock_constraints (snd e),
                ta_clock_resets = ta_clock_resets (snd e)\<rparr>)) `
              (set (ta_transitions ta1) \<times> set (ta_locations ta2)) \<union>
           (\<lambda>(e, l1).
              ((l1, ta_source (snd e)),
               \<lparr>ta_source = (l1, ta_source (snd e)), ta_target = (l1, ta_target (snd e)),
                ta_symbol = ta_symbol (snd e),
                ta_clock_constraints = ta_clock_constraints (snd e),
                ta_clock_resets = ta_clock_resets (snd e)\<rparr>)) `
              (set (ta_transitions ta2) \<times> set (ta_locations ta1))))"
proof (intro conjI impI)
  show "get_product ta1 ta2 synchronized_actions = Inl NotImplementedException \<longleftrightarrow>
      synchronized_actions \<noteq> []"
    by (auto simp: get_product_frame add_transitions_not_implemented split: sum.splits)
next
  assume wf: "ta_wf ta1 \<and> ta_wf ta2"
  let ?L = "\<lambda>(e, l2).
              ((ta_source (snd e), l2),
               \<lparr>ta_source = (ta_source (snd e), l2), ta_target = (ta_target (snd e), l2),
                ta_symbol = ta_symbol (snd e),
                ta_clock_constraints = ta_clock_constraints (snd e),
                ta_clock_resets = ta_clock_resets (snd e)\<rparr>)"
  let ?R = "\<lambda>(e, l1).
              ((l1, ta_source (snd e)),
               \<lparr>ta_source = (l1, ta_source (snd e)), ta_target = (l1, ta_target (snd e)),
                ta_symbol = ta_symbol (snd e),
                ta_clock_constraints = ta_clock_constraints (snd e),
                ta_clock_resets = ta_clock_resets (snd e)\<rparr>)"
  let ?res = "(product_frame ta1 ta2)
            \<lparr>ta_transitions :=
               fold (\<lambda>t m. multimap_insert (ta_source t) t m)
                 (left_moves ta1 ta2 @ right_moves ta1 ta2) []\<rparr>"
  from wf have r: "get_product ta1 ta2 [] = Inr ?res"
    by (simp add: get_product_wf)
  from wf have locs: "set (ta_locations ?res) = set (ta_locations ta1) \<times> set (ta_locations ta2)"
    by (simp add: product_frame_locations_wf)
  have alph: "set (ta_alphabet ?res) = set (ta_alphabet ta1) \<union> set (ta_alphabet ta2)"
    using set_fold_set_insert [of "\<lambda>x. x" "ta_alphabet ta1 @ ta_alphabet ta2" "[]"]
    by (simp add: product_frame_fields)
  have clocks: "set (ta_clocks ?res) = set (ta_clocks ta1) \<union> set (ta_clocks ta2)"
    by (simp add: product_frame_clocks)
  have init: "ta_initial_location ?res = (ta_initial_location ta1, ta_initial_location ta2)"
    by (simp add: product_frame_fields)
  have final: "set (ta_final_locations ?res) =
           set (ta_final_locations ta1) \<times> set (ta_final_locations ta2)"
    by (simp add: product_frame_fields set_location_pairs)
  from wf have key1: "\<forall>e \<in> set (ta_transitions ta1). fst e = ta_source (snd e)"
    and key2: "\<forall>e \<in> set (ta_transitions ta2). fst e = ta_source (snd e)"
    by (simp_all add: ta_wf_def)
  have left: "(\<lambda>t. (ta_source t, t)) ` set (left_moves ta1 ta2) =
      ?L ` (set (ta_transitions ta1) \<times> set (ta_locations ta2))"
  proof -
    have "set (left_moves ta1 ta2) =
        (\<lambda>x. left_move (fst (fst x)) (snd (fst x)) (snd x)) `
          (set (ta_transitions ta1) \<times> set (ta_locations ta2))"
      unfolding left_moves_def by force
    then have "(\<lambda>t. (ta_source t, t)) ` set (left_moves ta1 ta2) =
        (\<lambda>x. ((fst (fst x), snd x), left_move (fst (fst x)) (snd (fst x)) (snd x))) `
          (set (ta_transitions ta1) \<times> set (ta_locations ta2))"
      by (simp add: image_image left_move_def)
    also have "\<dots> = ?L ` (set (ta_transitions ta1) \<times> set (ta_locations ta2))"
      using key1 by (intro image_cong) (auto simp: left_move_def)
    finally show ?thesis .
  qed
  have right: "(\<lambda>t. (ta_source t, t)) ` set (right_moves ta1 ta2) =
      ?R ` (set (ta_transitions ta2) \<times> set (ta_locations ta1))"
  proof -
    have "set (right_moves ta1 ta2) =
        (\<lambda>x. right_move (fst (fst x)) (snd (fst x)) (snd x)) `
          (set (ta_transitions ta2) \<times> set (ta_locations ta1))"
      unfolding right_moves_def by force
    then have "(\<lambda>t. (ta_source t, t)) ` set (right_moves ta1 ta2) =
        (\<lambda>x. ((snd x, fst (fst x)), right_move (fst (fst x)) (snd (fst x)) (snd x))) `
          (set (ta_transitions ta2) \<times> set (ta_locations ta1))"
      by (simp add: image_image right_move_def)
    also have "\<dots> = ?R ` (set (ta_transitions ta2) \<times> set (ta_locations ta1))"
      using key2 by (intro image_cong) (auto simp: right_move_def)
    finally show ?thesis .
  qed
  have trans: "set (ta_transitions ?res) =
      ?L ` (set (ta_transitions ta1) \<times> set (ta_locations ta2)) \<union>
      ?R ` (set (ta_transitions ta2) \<times> set (ta_locations ta1))"
    by (simp add: set_fold_multimap_insert image_Un left right Un_commute)
  from r locs alph clocks init final trans
  show "\<exists>res. get_product ta1 ta2 [] = Inr res \<and>
         set (ta_locations res) = set (ta_locations ta1) \<times> set (ta_locations ta2) \<and>
         set (ta_alphabet res) = set (ta_alphabet ta1) \<union> set (ta_alphabet ta2) \<and>
         set (ta_clocks res) = set (ta_clocks ta1) \<union> set (ta_clocks ta2) \<and>
         ta_initial_location res = (ta_initial_location ta1, ta_initial_location ta2) \<and>
         set (ta_final_locations res) =
           set (ta_final_locations ta1) \<times> set (ta_final_locations ta2) \<and>
         set (ta_transitions res) =
           ?L ` (set (ta_transitions ta1) \<times> set (ta_locations ta2)) \<union>
           ?R ` (set (ta_transitions ta2) \<times> set (ta_locations ta1))"
    by blast
qed

text \<open>
  The automaton of the scenario with the guard \<open>x < 1\<close>: from location 0 to the final
  location 1 on \<^verbatim>\<open>a\<close>.
\<close>

definition ta_guard :: "nat TimedAutomaton" where
  "ta_guard =
     fst (add_transition ta_small
       \<lparr>ta_source = 0, ta_target = 1, ta_symbol = ''a'',
        ta_clock_constraints = [(''x'', Less 1)], ta_clock_resets = []\<rparr>)"

lemma ta_guard_eq:
  "ta_guard =
     \<lparr>ta_alphabet = [''a''], ta_locations = [0, 1], ta_initial_location = 0,
      ta_final_locations = [1], ta_clocks = [''x''],
      ta_transitions =
        [(0, \<lparr>ta_source = 0, ta_target = 1, ta_symbol = ''a'',
              ta_clock_constraints = [(''x'', Less 1)], ta_clock_resets = []\<rparr>)]\<rparr>"
  by (simp add: ta_guard_def ta_small_def add_transition_def TimedAutomaton_init_def
      add_locations_def add_location_def add_clock_def)

lemma ta_guard_wf: "ta_wf ta_guard"
proof -
  have "ta_constructed ta_guard"
    unfolding ta_guard_def ta_small_def
    by (intro ta_constructed.transition ta_constructed.clock ta_constructed.constructor)
  then show ?thesis by (rule ta_constructed_wf)
qed

lemma ta_guard_accepts:
  "accepts_word ta_guard [(''a'', 1 / 2)] = Inr True"
  "accepts_word ta_guard [(''a'', 1)] = Inr False"
  by (simp_all add: accepts_word_def ta_guard_eq make_transition_def equal_range_def
      Path_init_def is_enabled_def Let_def)

text \<open>
  An automaton that moves from location 0 to its final location 1 on \<^verbatim>\<open>b\<close> when its
  clock \<^verbatim>\<open>y\<close> is positive, and resets the clock.
\<close>

definition ta_reset :: "nat TimedAutomaton" where
  "ta_reset =
     fst (add_transition (add_clock (TimedAutomaton_init [''b''] 0 [1]) ''y'')
       \<lparr>ta_source = 0, ta_target = 1, ta_symbol = ''b'',
        ta_clock_constraints = [(''y'', Greater 0)], ta_clock_resets = [''y'']\<rparr>)"

lemma ta_reset_eq:
  "ta_reset =
     \<lparr>ta_alphabet = [''b''], ta_locations = [0, 1], ta_initial_location = 0,
      ta_final_locations = [1], ta_clocks = [''y''],
      ta_transitions =
        [(0, \<lparr>ta_source = 0, ta_target = 1, ta_symbol = ''b'',
              ta_clock_constraints = [(''y'', Greater 0)], ta_clock_resets = [''y'']\<rparr>)]\<rparr>"
  by (simp add: ta_reset_def add_transition_def TimedAutomaton_init_def
      add_locations_def add_location_def add_clock_def)

lemma ta_reset_wf: "ta_wf ta_reset"
proof -
  have "ta_constructed ta_reset"
    unfolding ta_reset_def
    by (intro ta_constructed.transition ta_constructed.clock ta_constructed.constructor)
  then show ?thesis by (rule ta_constructed_wf)
qed

text \<open>The product of the two guarded automata.\<close>

theorem get_product_interleaves_witness:
  "ta_wf ta_guard \<and> ta_wf ta_reset \<and>
   get_product ta_guard ta_reset [''a''] = Inl NotImplementedException \<and>
   (\<exists>res. get_product ta_guard ta_reset [] = Inr res \<and>
      set (ta_locations res) = {(0, 0), (0, 1), (1, 0), (1, 1)} \<and>
      set (ta_alphabet res) = {''a'', ''b''} \<and>
      set (ta_clocks res) = {''x'', ''y''} \<and>
      ta_initial_location res = (0, 0) \<and>
      set (ta_final_locations res) = {(1, 1)} \<and>
      set (ta_transitions res) =
        {((0, 0), \<lparr>ta_source = (0, 0), ta_target = (1, 0), ta_symbol = ''a'',
                   ta_clock_constraints = [(''x'', Less 1)], ta_clock_resets = []\<rparr>),
         ((0, 1), \<lparr>ta_source = (0, 1), ta_target = (1, 1), ta_symbol = ''a'',
                   ta_clock_constraints = [(''x'', Less 1)], ta_clock_resets = []\<rparr>),
         ((0, 0), \<lparr>ta_source = (0, 0), ta_target = (0, 1), ta_symbol = ''b'',
                   ta_clock_constraints = [(''y'', Greater 0)], ta_clock_resets = [''y'']\<rparr>),
         ((1, 0), \<lparr>ta_source = (1, 0), ta_target = (1, 1), ta_symbol = ''b'',
                   ta_clock_constraints = [(''y'', Greater 0)], ta_clock_resets = [''y'']\<rparr>)})"
proof -
  note T = get_product_interleaves [of ta_guard ta_reset "[''a'']"]
  from T have n: "get_product ta_guard ta_reset [''a''] = Inl NotImplementedException"
    by simp
  from T [THEN conjunct2] ta_guard_wf ta_reset_wf
  obtain res where res: "get_product ta_guard ta_reset [] = Inr res"
    "set (ta_locations res) = set (ta_locations ta_guard) \<times> set (ta_locations ta_reset)"
    "set (ta_alphabet res) = set (ta_alphabet ta_guard) \<union> set (ta_alphabet ta_reset)"
    "set (ta_clocks res) = set (ta_clocks ta_guard) \<union> set (ta_clocks ta_reset)"
    "ta_initial_location res = (ta_initial_location ta_guard, ta_initial_location ta_reset)"
    "set (ta_final_locations res) =
       set (ta_final_locations ta_guard) \<times> set (ta_final_locations ta_reset)"
    "set (ta_transitions res) =
           (\<lambda>(e, l2).
              ((ta_source (snd e), l2),
               \<lparr>ta_source = (ta_source (snd e), l2), ta_target = (ta_target (snd e), l2),
                ta_symbol = ta_symbol (snd e),
                ta_clock_constraints = ta_clock_constraints (snd e),
                ta_clock_resets = ta_clock_resets (snd e)\<rparr>)) `
              (set (ta_transitions ta_guard) \<times> set (ta_locations ta_reset)) \<union>
           (\<lambda>(e, l1).
              ((l1, ta_source (snd e)),
               \<lparr>ta_source = (l1, ta_source (snd e)), ta_target = (l1, ta_target (snd e)),
                ta_symbol = ta_symbol (snd e),
                ta_clock_constraints = ta_clock_constraints (snd e),
                ta_clock_resets = ta_clock_resets (snd e)\<rparr>)) `
              (set (ta_transitions ta_reset) \<times> set (ta_locations ta_guard))"
    by blast
  from res(2) have 2: "set (ta_locations res) = {(0, 0), (0, 1), (1, 0), (1, 1)}"
    by (auto simp: ta_guard_eq ta_reset_eq)
  from res(3) have 3: "set (ta_alphabet res) = {''a'', ''b''}"
    by (auto simp: ta_guard_eq ta_reset_eq)
  from res(4) have 4: "set (ta_clocks res) = {''x'', ''y''}"
    by (auto simp: ta_guard_eq ta_reset_eq)
  from res(5) have 5: "ta_initial_location res = (0, 0)"
    by (simp add: ta_guard_eq ta_reset_eq)
  from res(6) have 6: "set (ta_final_locations res) = {(1, 1)}"
    by (simp add: ta_guard_eq ta_reset_eq)
  from res(7) have 7: "set (ta_transitions res) =
        {((0, 0), \<lparr>ta_source = (0, 0), ta_target = (1, 0), ta_symbol = ''a'',
                   ta_clock_constraints = [(''x'', Less 1)], ta_clock_resets = []\<rparr>),
         ((0, 1), \<lparr>ta_source = (0, 1), ta_target = (1, 1), ta_symbol = ''a'',
                   ta_clock_constraints = [(''x'', Less 1)], ta_clock_resets = []\<rparr>),
         ((0, 0), \<lparr>ta_source = (0, 0), ta_target = (0, 1), ta_symbol = ''b'',
                   ta_clock_constraints = [(''y'', Greater 0)], ta_clock_resets = [''y'']\<rparr>),
         ((1, 0), \<lparr>ta_source = (1, 0), ta_target = (1, 1), ta_symbol = ''b'',
                   ta_clock_constraints = [(''y'', Greater 0)], ta_clock_resets = [''y'']\<rparr>)}"
    by (simp add: ta_guard_eq ta_reset_eq insert_commute)
  from n res(1) 2 3 4 5 6 7 ta_guard_wf ta_reset_wf show ?thesis by blast
qed

subsection \<open>The product with an automaton that never moves\<close>

text \<open>
  A path of the first component, seen as a path of the product with a second
  component that stays in \<open>l0\<close>.
\<close>

definition lift_path :: "'b \<Rightarrow> 'a Path \<Rightarrow> ('a \<times> 'b) Path" where
  "lift_path l0 p =
     \<lparr>ta_sequence = map (\<lambda>s. (fst s, fst (snd s), (snd (snd s), l0))) (ta_sequence p),
      ta_clock_valuations = ta_clock_valuations p,
      ta_current_location = (ta_current_location p, l0),
      ta_tick = ta_tick p\<rparr>"

lemma map_less_iff:
  fixes g :: "'a::linorder \<Rightarrow> 'b::linorder"
  assumes mono: "\<And>x y. g x < g y \<longleftrightarrow> x < y"
  shows "map g xs < map g ys \<longleftrightarrow> xs < ys"
proof -
  have inj: "g x = g y \<longleftrightarrow> x = y" for x y
  proof
    assume e: "g x = g y"
    show "x = y"
    proof (rule ccontr)
      assume "x \<noteq> y"
      then have "x < y \<or> y < x" by auto
      with mono have "g x < g y \<or> g y < g x" by simp
      with e show False by simp
    qed
  qed simp
  show ?thesis
  proof (induction xs arbitrary: ys)
    case Nil
    show ?case by (cases ys) simp_all
  next
    case (Cons x xs)
    show ?case
      by (cases ys) (simp_all add: Cons.IH mono inj)
  qed
qed

lemma lift_sequence_less:
  fixes l0 :: "'b::linorder" and xs ys :: "(Symbol \<times> Time \<times> 'a::linorder) list"
  shows "map (\<lambda>s. (fst s, fst (snd s), (snd (snd s), l0))) xs <
         map (\<lambda>s. (fst s, fst (snd s), (snd (snd s), l0))) ys \<longleftrightarrow> xs < ys"
  by (rule map_less_iff) auto

lemma path_set_insert_lift:
  fixes l0 :: "'b::linorder" and p :: "'a::linorder Path"
  shows "path_set_insert (lift_path l0 p) (map (lift_path l0) ps) =
         map (lift_path l0) (path_set_insert p ps)"
proof (induction ps)
  case Nil
  show ?case by simp
next
  case (Cons q qs)
  have 1: "ta_sequence (lift_path l0 p) < ta_sequence (lift_path l0 q) \<longleftrightarrow>
      ta_sequence p < ta_sequence q"
    unfolding lift_path_def by (simp add: lift_sequence_less)
  have 2: "ta_sequence (lift_path l0 q) < ta_sequence (lift_path l0 p) \<longleftrightarrow>
      ta_sequence q < ta_sequence p"
    unfolding lift_path_def by (simp add: lift_sequence_less)
  show ?case
    by (simp add: 1 2 Cons.IH)
qed

lemma fold_path_set_insert_lift:
  fixes l0 :: "'b::linorder" and ps :: "'a::linorder Path list"
  shows "fold path_set_insert (map (lift_path l0) new) (map (lift_path l0) ps) =
         map (lift_path l0) (fold path_set_insert new ps)"
  by (induction new arbitrary: ps) (simp_all add: path_set_insert_lift)

lemma all_constraints_satisfied_any_type:
  "(all_constraints_satisfied cs m :: 'a ta_error + bool) = Inr b \<Longrightarrow>
   (all_constraints_satisfied cs m :: 'b ta_error + bool) = Inr b"
  by (induction cs) (auto split: option.splits if_splits)

lemma is_enabled_left_move:
  "is_enabled t a m = Inr b \<Longrightarrow> is_enabled (left_move k t l0) a m = Inr b"
  unfolding is_enabled_def left_move_def
  by (auto split: if_splits dest: all_constraints_satisfied_any_type)

lemma enabled_transitions_loop_lift:
  fixes l0 :: "'b::linorder" and p :: "'a::linorder Path"
  shows "enabled_transitions_loop trs p a time acc = Inr out \<Longrightarrow>
     enabled_transitions_loop (map (\<lambda>t. left_move k t l0) trs) (lift_path l0 p) a time
       (map (lift_path l0) acc) = Inr (map (lift_path l0) out)"
proof (induction trs arbitrary: p acc)
  case Nil
  then show ?case by simp
next
  case (Cons tr rest)
  let ?p' = "p\<lparr>ta_current_location := ta_target tr,
         ta_sequence := ta_sequence p @ [(a, time, ta_target tr)],
         ta_clock_valuations :=
           fold (\<lambda>name m. m(name \<mapsto> 0)) (ta_clock_resets tr) (ta_clock_valuations p)\<rparr>"
  from Cons.prems obtain b where
    b: "is_enabled tr a (ta_clock_valuations p) = (Inr b :: 'a ta_error + bool)"
    by (auto split: sum.splits)
  then have b': "is_enabled (left_move k tr l0) a (ta_clock_valuations (lift_path l0 p)) =
      (Inr b :: ('a \<times> 'b) ta_error + bool)"
    by (simp add: is_enabled_left_move lift_path_def)
  show ?case
  proof (cases b)
    case False
    with b Cons.prems have "enabled_transitions_loop rest p a time acc = Inr out" by simp
    from Cons.IH [OF this] b' False show ?thesis by simp
  next
    case True
    with b Cons.prems
    have "enabled_transitions_loop rest ?p' a time (path_set_insert ?p' acc) = Inr out"
      by (simp add: Let_def)
    from Cons.IH [OF this]
    have "enabled_transitions_loop (map (\<lambda>t. left_move k t l0) rest) (lift_path l0 ?p') a time
       (path_set_insert (lift_path l0 ?p') (map (lift_path l0) acc)) =
       Inr (map (lift_path l0) out)"
      by (simp add: path_set_insert_lift)
    moreover have "lift_path l0 ?p' = (lift_path l0 p)
        \<lparr>ta_current_location := ta_target (left_move k tr l0),
         ta_sequence := ta_sequence (lift_path l0 p) @ [(a, time, ta_target (left_move k tr l0))],
         ta_clock_valuations :=
           fold (\<lambda>name m. m(name \<mapsto> 0)) (ta_clock_resets (left_move k tr l0))
             (ta_clock_valuations (lift_path l0 p))\<rparr>"
      by (simp add: lift_path_def left_move_def)
    ultimately show ?thesis using b' True
      by (simp add: Let_def)
  qed
qed

lemma multimap_insert_sorted:
  "sorted (map fst m) \<Longrightarrow> sorted (map fst (multimap_insert k v m))"
  by (induction m) (auto simp: set_multimap_insert)

lemma filter_multimap_insert:
  "sorted (map fst m) \<Longrightarrow>
   filter (\<lambda>e. fst e = k) (multimap_insert k' v m) =
     (if k' = k then filter (\<lambda>e. fst e = k) m @ [(k', v)] else filter (\<lambda>e. fst e = k) m)"
proof (induction m)
  case Nil
  show ?case by simp
next
  case (Cons e es)
  show ?case
  proof (cases "k' < fst e")
    case True
    with Cons.prems have "\<forall>x \<in> set (e # es). fst x \<noteq> k'"
      by auto
    then have "filter (\<lambda>x. fst x = k') (e # es) = []"
      by (auto simp: filter_empty_conv)
    with True show ?thesis by auto
  next
    case False
    from Cons.prems have "sorted (map fst es)" by simp
    from Cons.IH [OF this] False show ?thesis by auto
  qed
qed

lemma filter_fold_multimap_insert:
  "sorted (map fst m0) \<Longrightarrow>
   filter (\<lambda>e. fst e = k) (fold (\<lambda>t m. multimap_insert (f t) t m) ts m0) =
     filter (\<lambda>e. fst e = k) m0 @ map (\<lambda>t. (f t, t)) (filter (\<lambda>t. f t = k) ts)"
proof (induction ts arbitrary: m0)
  case Nil
  show ?case by simp
next
  case (Cons t ts)
  from Cons.prems have s: "sorted (map fst (multimap_insert (f t) t m0))"
    by (rule multimap_insert_sorted)
  show ?case
    by (simp add: Cons.IH [OF s] filter_multimap_insert [OF Cons.prems])
qed

lemma make_transition_lift:
  fixes l0 :: "'b::linorder" and p :: "'a::linorder Path"
  assumes range: "\<And>l. equal_range (ta_transitions pr) (l, l0) =
      map (\<lambda>t. left_move l t l0) (equal_range (ta_transitions ta1) l)"
    and ok: "make_transition ta1 p a time = Inr out"
  shows "make_transition pr (lift_path l0 p) a time = Inr (map (lift_path l0) out)"
proof (cases "ta_tick p > time")
  case True
  with ok show ?thesis by (auto simp: make_transition_def lift_path_def)
next
  case False
  let ?p' = "p\<lparr>ta_clock_valuations :=
           (\<lambda>name. map_option (\<lambda>clock. clock + (time - ta_tick p)) (ta_clock_valuations p name)),
         ta_tick := time\<rparr>"
  from ok False
  have "enabled_transitions_loop (equal_range (ta_transitions ta1) (ta_current_location p))
      ?p' a time [] = Inr out"
    by (simp add: make_transition_def Let_def)
  from enabled_transitions_loop_lift [OF this, of "ta_current_location p" l0]
  have "enabled_transitions_loop
      (equal_range (ta_transitions pr) (ta_current_location p, l0))
      (lift_path l0 ?p') a time [] = Inr (map (lift_path l0) out)"
    by (simp add: range)
  moreover have "lift_path l0 ?p' = (lift_path l0 p)
      \<lparr>ta_clock_valuations :=
           (\<lambda>name. map_option (\<lambda>clock. clock + (time - ta_tick (lift_path l0 p)))
              (ta_clock_valuations (lift_path l0 p) name)),
         ta_tick := time\<rparr>"
    by (simp add: lift_path_def)
  moreover have "ta_current_location (lift_path l0 p) = (ta_current_location p, l0)"
    "ta_tick (lift_path l0 p) = ta_tick p"
    by (simp_all add: lift_path_def)
  ultimately show ?thesis using False
    by (simp add: make_transition_def Let_def)
qed

lemma step_paths_lift:
  fixes l0 :: "'b::linorder" and paths :: "'a::linorder Path list"
  assumes range: "\<And>l. equal_range (ta_transitions pr) (l, l0) =
      map (\<lambda>t. left_move l t l0) (equal_range (ta_transitions ta1) l)"
  shows "step_paths ta1 paths a time res = Inr out \<Longrightarrow>
     step_paths pr (map (lift_path l0) paths) a time (map (lift_path l0) res) =
       Inr (map (lift_path l0) out)"
proof (induction paths arbitrary: res)
  case Nil
  then show ?case by simp
next
  case (Cons p paths)
  from Cons.prems obtain new where new: "make_transition ta1 p a time = Inr new"
    and rest: "step_paths ta1 paths a time (fold path_set_insert new res) = Inr out"
    by (auto split: sum.splits)
  from make_transition_lift [OF range new]
  have "make_transition pr (lift_path l0 p) a time = Inr (map (lift_path l0) new)" .
  with Cons.IH [OF rest] show ?case
    by (simp add: fold_path_set_insert_lift)
qed

lemma read_word_lift:
  fixes l0 :: "'b::linorder" and paths :: "'a::linorder Path list"
  assumes range: "\<And>l. equal_range (ta_transitions pr) (l, l0) =
      map (\<lambda>t. left_move l t l0) (equal_range (ta_transitions ta1) l)"
    and final: "\<And>l. (l, l0) \<in> set (ta_final_locations pr) \<longleftrightarrow> l \<in> set (ta_final_locations ta1)"
  shows "read_word ta1 word paths = Inr b \<Longrightarrow>
     read_word pr word (map (lift_path l0) paths) = Inr b"
proof (induction word arbitrary: paths)
  case Nil
  then show ?case
    by (auto simp: lift_path_def final)
next
  case (Cons st word)
  obtain a time where st: "st = (a, time)" by (cases st)
  from Cons.prems st obtain res where res: "step_paths ta1 paths a time [] = Inr res"
    by (auto split: sum.splits)
  from step_paths_lift [OF range this]
  have res': "step_paths pr (map (lift_path l0) paths) a time [] = Inr (map (lift_path l0) res)"
    by simp
  show ?case
  proof (cases "res = []")
    case True
    with Cons.prems res res' st show ?thesis by simp
  next
    case False
    with Cons.prems res st have "read_word ta1 word res = Inr b" by simp
    from Cons.IH [OF this] res' False st show ?thesis by simp
  qed
qed

lemma read_word_returns:
  assumes "ta_wf ta"
  shows "\<forall>p \<in> set paths. path_at ta t0 p \<Longrightarrow> \<exists>b. read_word ta word paths = Inr b"
proof (induction word arbitrary: paths t0)
  case Nil
  show ?case by simp
next
  case (Cons st word)
  obtain a time where st: "st = (a, time)" by (cases st)
  from step_paths_result [where res = "[]" and time = time and a = a, OF assms Cons.prems]
  obtain out where out: "step_paths ta paths a time [] = Inr out"
    "\<forall>q \<in> set out. path_at ta time q"
    by auto
  from Cons.IH [OF out(2)] out(1) st show ?case
    by auto
qed

lemma Path_init_clock_valuations:
  "ta_clock_valuations (Path_init l clocks) = (\<lambda>c. if c \<in> set clocks then Some 0 else None)"
proof -
  have "fold (\<lambda>clock m. if clock \<in> dom m then m else m(clock \<mapsto> 0::Clock)) clocks m c =
      (if c \<in> dom m then m c else if c \<in> set clocks then Some 0 else None)" for m c
    by (induction clocks arbitrary: m) (auto simp: dom_def)
  then show ?thesis by (auto simp: Path_init_def)
qed

lemma trivial_ta_fields:
  "ta_locations (TimedAutomaton_init alphabet l0 [l0]) = [l0]"
  "ta_final_locations (TimedAutomaton_init alphabet l0 [l0]) = [l0]"
  "ta_transitions (TimedAutomaton_init alphabet l0 [l0]) = []"
  "ta_clocks (TimedAutomaton_init alphabet l0 [l0]) = []"
  by (simp_all add: TimedAutomaton_init_def add_locations_def add_location_def)

lemma Path_init_lift:
  "set clocks' = set clocks \<Longrightarrow>
   Path_init (l, l0) clocks' = lift_path l0 (Path_init l clocks)"
  using Path_init_clock_valuations [of "(l, l0)" clocks'] Path_init_clock_valuations [of l clocks]
  by (simp add: lift_path_def Path_init_def)

text \<open>
  C7: for every well-formed timed automaton, the product with an automaton that
  has a single location, final, and no transitions (built with no synchronized
  actions) is returned, and on every timed word \<^verbatim>\<open>accepts_word\<close> returns the same
  for the product as for the automaton itself.
\<close>

theorem product_with_trivial_accepts_same:
  "ta_wf ta \<longrightarrow>
     (\<exists>pr. get_product ta (TimedAutomaton_init alphabet l0 [l0]) [] = Inr pr \<and>
        (\<forall>word. \<exists>b. accepts_word ta word = Inr b \<and> accepts_word pr word = Inr b))"
proof
  assume wf: "ta_wf ta"
  let ?triv = "TimedAutomaton_init alphabet l0 [l0]"
  let ?left = "map (\<lambda>e. left_move (fst e) (snd e) l0) (ta_transitions ta)"
  let ?pr = "(product_frame ta ?triv)
      \<lparr>ta_transitions := fold (\<lambda>t m. multimap_insert (ta_source t) t m) ?left []\<rparr>"
  have moves: "left_moves ta ?triv = ?left" "right_moves ta ?triv = []"
    by (simp_all add: left_moves_def right_moves_def trivial_ta_fields)
  from wf have pr: "get_product ta ?triv [] = Inr ?pr"
    by (simp add: get_product_wf ta_wf_init moves)
  have range: "equal_range (ta_transitions ?pr) (l, l0) =
      map (\<lambda>t. left_move l t l0) (equal_range (ta_transitions ta) l)" for l
  proof -
    have "filter (\<lambda>t. ta_source t = (l, l0)) ?left =
        map (\<lambda>e. left_move (fst e) (snd e) l0) (filter (\<lambda>e. fst e = l) (ta_transitions ta))"
      by (simp add: filter_map comp_def left_move_def)
    also have "\<dots> = map (\<lambda>t. left_move l t l0) (map snd (filter (\<lambda>e. fst e = l) (ta_transitions ta)))"
      by (induction "ta_transitions ta") auto
    finally show ?thesis
      by (simp add: equal_range_def filter_fold_multimap_insert comp_def)
  qed
  have final: "(l, l0) \<in> set (ta_final_locations ?pr) \<longleftrightarrow> l \<in> set (ta_final_locations ta)" for l
    by (simp add: product_frame_fields set_location_pairs trivial_ta_fields)
  have "set (ta_clocks ?pr) = set (ta_clocks ta)"
    by (simp add: product_frame_clocks trivial_ta_fields)
  then have init: "Path_init (ta_initial_location ?pr) (ta_clocks ?pr) =
      lift_path l0 (Path_init (ta_initial_location ta) (ta_clocks ta))"
    by (simp add: product_frame_fields TimedAutomaton_init_def add_locations_other_fields
        Path_init_lift)
  have at: "\<forall>p \<in> set [Path_init (ta_initial_location ta) (ta_clocks ta)]. path_at ta 0 p"
    by (simp add: path_at_def dom_Path_init) (simp add: Path_init_def)
  have "\<exists>b. accepts_word ta word = Inr b \<and> accepts_word ?pr word = Inr b" for word
  proof -
    from read_word_returns [OF wf at]
    obtain b where b: "accepts_word ta word = Inr b"
      unfolding accepts_word_def by blast
    then have "read_word ta word [Path_init (ta_initial_location ta) (ta_clocks ta)] = Inr b"
      by (simp add: accepts_word_def)
    from read_word_lift [of ?pr l0 ta, OF range final this]
    have "accepts_word ?pr word = Inr b"
      unfolding accepts_word_def init by simp
    with b show ?thesis by blast
  qed
  with pr show "\<exists>pr. get_product ta ?triv [] = Inr pr \<and>
        (\<forall>word. \<exists>b. accepts_word ta word = Inr b \<and> accepts_word pr word = Inr b)"
    by blast
qed

text \<open>The guarded automaton: \<^verbatim>\<open>(a, 1/2)\<close> is accepted, \<^verbatim>\<open>(a, 1)\<close> is not, with or without the product.\<close>

theorem product_with_trivial_accepts_same_witness:
  "ta_wf ta_guard \<and>
   accepts_word ta_guard [(''a'', 1 / 2)] = Inr True \<and>
   accepts_word ta_guard [(''a'', 1)] = Inr False \<and>
   (\<exists>pr. get_product ta_guard (TimedAutomaton_init [] (0::nat) [0]) [] = Inr pr \<and>
      accepts_word pr [(''a'', 1 / 2)] = Inr True \<and>
      accepts_word pr [(''a'', 1)] = Inr False)"
proof -
  from product_with_trivial_accepts_same [of ta_guard "[]" "0::nat"] ta_guard_wf
  obtain pr where pr: "get_product ta_guard (TimedAutomaton_init [] (0::nat) [0]) [] = Inr pr"
    and same: "\<And>word. \<exists>b. accepts_word ta_guard word = Inr b \<and> accepts_word pr word = Inr b"
    by blast
  from same [of "[(''a'', 1 / 2)]"] same [of "[(''a'', 1)]"] ta_guard_accepts
  have "accepts_word pr [(''a'', 1 / 2)] = Inr True" "accepts_word pr [(''a'', 1)] = Inr False"
    by auto
  with pr ta_guard_wf ta_guard_accepts show ?thesis by blast
qed

section \<open>The Golog program (golog_program.cpp)\<close>

text \<open>
  What the constructor and the destructor of \<^verbatim>\<open>GologProgram\<close> read and write outside
  the object: the static member \<^verbatim>\<open>initialized\<close>, and whether the Readylog context of
  the Golog library is up. \<open>instances\<close> counts the objects that are alive.
\<close>

record golog_state =
  initialized :: bool
  context_up :: bool
  instances :: nat

text \<open>The exceptions of the constructor, by their classes.\<close>

datatype golog_error = RuntimeError | InvalidArgument | LogicError

text \<open>
  The Golog library is not part of the sources. Its parser and global scope are a
  parameter: \<open>lookup_global program name\<close> tells whether the global scope has an
  entry of that name once the program text and the declarations of the two
  terminating actions are parsed. Exceptions of the library itself are left out.

  The constructor returns the state it leaves behind and the exception, if one is
  thrown. An object whose constructor throws never comes alive, and its destructor
  does not run.
\<close>

definition GologProgram_init ::
  "(string \<Rightarrow> string \<Rightarrow> bool) \<Rightarrow> golog_state \<Rightarrow> string \<Rightarrow> golog_state \<times> golog_error option" where
  "GologProgram_init lookup_global st program =
     (if initialized st then (st, Some RuntimeError)
      else
        let st' = st\<lparr>initialized := True, context_up := True\<rparr> in
        if \<not> lookup_global program ''main'' then (st', Some InvalidArgument)
        else if \<not> lookup_global program ''env_terminate'' then (st', Some LogicError)
        else if \<not> lookup_global program ''ctl_terminate'' then (st', Some LogicError)
        else (st'\<lparr>instances := Suc (instances st')\<rparr>, None))"

text \<open>The destructor of an object that is alive.\<close>

definition GologProgram_destroy :: "golog_state \<Rightarrow> golog_state" where
  "GologProgram_destroy st =
     st\<lparr>context_up := False, initialized := False, instances := instances st - 1\<rparr>"

text \<open>
  The states a program can be in: at the start nothing is initialized and no object
  is alive; objects are constructed, and objects that are alive are destroyed.
\<close>

inductive golog_reachable :: "(string \<Rightarrow> string \<Rightarrow> bool) \<Rightarrow> golog_state \<Rightarrow> bool"
  for lookup_global :: "string \<Rightarrow> string \<Rightarrow> bool" where
  start: "golog_reachable lookup_global \<lparr>initialized = False, context_up = False, instances = 0\<rparr>"
| construct: "golog_reachable lookup_global st \<Longrightarrow>
     golog_reachable lookup_global (fst (GologProgram_init lookup_global st program))"
| destroy: "golog_reachable lookup_global st \<Longrightarrow> 0 < instances st \<Longrightarrow>
     golog_reachable lookup_global (GologProgram_destroy st)"

lemma golog_reachable_invariant:
  "golog_reachable lookup_global st \<Longrightarrow>
   instances st \<le> 1 \<and> (0 < instances st \<longrightarrow> initialized st)"
proof (induction rule: golog_reachable.induct)
  case start
  show ?case by simp
next
  case (construct st program)
  then show ?case
    by (auto simp: GologProgram_init_def Let_def)
next
  case (destroy st)
  then show ?case
    by (auto simp: GologProgram_destroy_def)
qed

text \<open>
  C8: in every state a program reaches at most one \<^verbatim>\<open>GologProgram\<close> is alive. While
  one is alive, a constructor fails with the runtime error and leaves everything
  as it is, so nothing is initialized again. The destructor of the object that is
  alive clears \<^verbatim>\<open>initialized\<close>, and a constructor called then succeeds for every
  program text in which the library finds the main procedure and the two
  terminating actions; the new object is the only one alive.
\<close>

theorem golog_program_exclusive:
  "golog_reachable lookup_global st \<longrightarrow>
     instances st \<le> 1 \<and>
     (0 < instances st \<longrightarrow>
        GologProgram_init lookup_global st program = (st, Some RuntimeError) \<and>
        \<not> initialized (GologProgram_destroy st) \<and>
        instances (GologProgram_destroy st) = 0 \<and>
        (lookup_global program' ''main'' \<and> lookup_global program' ''env_terminate'' \<and>
         lookup_global program' ''ctl_terminate'' \<longrightarrow>
           (\<exists>st'. GologProgram_init lookup_global (GologProgram_destroy st) program' = (st', None) \<and>
              initialized st' \<and> instances st' = 1)))"
proof
  assume "golog_reachable lookup_global st"
  from golog_reachable_invariant [OF this]
  have inv: "instances st \<le> 1" "0 < instances st \<longrightarrow> initialized st"
    by simp_all
  show "instances st \<le> 1 \<and>
     (0 < instances st \<longrightarrow>
        GologProgram_init lookup_global st program = (st, Some RuntimeError) \<and>
        \<not> initialized (GologProgram_destroy st) \<and>
        instances (GologProgram_destroy st) = 0 \<and>
        (lookup_global program' ''main'' \<and> lookup_global program' ''env_terminate'' \<and>
         lookup_global program' ''ctl_terminate'' \<longrightarrow>
           (\<exists>st'. GologProgram_init lookup_global (GologProgram_destroy st) program' = (st', None) \<and>
              initialized st' \<and> instances st' = 1)))"
    using inv by (auto simp: GologProgram_init_def GologProgram_destroy_def Let_def)
qed

text \<open>A library that finds the two actions always, and \<^verbatim>\<open>main\<close> in one program text.\<close>

definition lookup_example :: "string \<Rightarrow> string \<Rightarrow> bool" where
  "lookup_example program name =
     (name = ''env_terminate'' \<or> name = ''ctl_terminate'' \<or>
      (name = ''main'' \<and> program = ''procedure main() { }''))"

text \<open>One object alive: a second constructor, the destructor, and a constructor after it.\<close>

theorem golog_program_exclusive_witness:
  "golog_reachable lookup_example \<lparr>initialized = True, context_up = True, instances = 1\<rparr> \<and>
   GologProgram_init lookup_example \<lparr>initialized = True, context_up = True, instances = 1\<rparr>
     ''procedure main() { }'' =
     (\<lparr>initialized = True, context_up = True, instances = 1\<rparr>, Some RuntimeError) \<and>
   GologProgram_destroy \<lparr>initialized = True, context_up = True, instances = 1\<rparr> =
     \<lparr>initialized = False, context_up = False, instances = 0\<rparr> \<and>
   GologProgram_init lookup_example
     (GologProgram_destroy \<lparr>initialized = True, context_up = True, instances = 1\<rparr>)
     ''procedure main() { }'' =
     (\<lparr>initialized = True, context_up = True, instances = 1\<rparr>, None)"
proof -
  let ?one = "\<lparr>initialized = True, context_up = True, instances = 1\<rparr>"
  have "fst (GologProgram_init lookup_example
      \<lparr>initialized = False, context_up = False, instances = 0\<rparr> ''procedure main() { }'') = ?one"
    by (simp add: GologProgram_init_def lookup_example_def)
  with golog_reachable.construct [OF golog_reachable.start,
      of lookup_example "''procedure main() { }''"]
  have r: "golog_reachable lookup_example ?one" by simp
  have d: "GologProgram_destroy ?one = \<lparr>initialized = False, context_up = False, instances = 0\<rparr>"
    by (simp add: GologProgram_destroy_def)
  from golog_program_exclusive
    [of lookup_example ?one "''procedure main() { }''" "''procedure main() { }''"] r
  have "GologProgram_init lookup_example ?one ''procedure main() { }'' = (?one, Some RuntimeError)"
    and "\<exists>st'. GologProgram_init lookup_example (GologProgram_destroy ?one)
        ''procedure main() { }'' = (st', None) \<and> initialized st' \<and> instances st' = 1"
    by (simp_all add: lookup_example_def)
  moreover have "GologProgram_init lookup_example (GologProgram_destroy ?one)
      ''procedure main() { }'' = (?one, None)"
    by (simp add: GologProgram_destroy_def GologProgram_init_def lookup_example_def)
  ultimately show ?thesis using r d by simp
qed

end
